theory Spec2Isabelle
  imports Complex_Main "HOL-Library.Log_Nat"
begin

section \<open>LoRAFactory logging server (\<^verbatim>\<open>log_server.py\<close>)\<close>

text \<open>
  The program is one request handler class, \<^verbatim>\<open>LogHandler\<close>, with two methods
  (\<^verbatim>\<open>do_POST\<close>, \<^verbatim>\<open>do_OPTIONS\<close>), a module constant \<^verbatim>\<open>LOG_FILE\<close> computed when
  the module is loaded, and \<^verbatim>\<open>run_server\<close>. The handler is embedded as a function from
  a request and the server's state to a reply and the new state. What the handler calls in
  the Python runtime is either written out (integer and float division, rounding to
  microseconds, the calendar, \<^verbatim>\<open>json.dumps\<close>) or, where it depends on the installation
  (\<^verbatim>\<open>json.loads\<close>, the shortest \<^verbatim>\<open>repr\<close> of a float, the time zone), taken as a field
  of a \<open>runtime\<close> record. The runtime is CPython 3 on a POSIX system, serving one request
  at a time.
\<close>

subsection \<open>Strings, exceptions, JSON values\<close>

text \<open>
  A Python \<^verbatim>\<open>str\<close> is a sequence of code points; \<^verbatim>\<open>bytes\<close>, header values and the
  request path are Isabelle strings (a \<open>char\<close> is one byte).
\<close>

type_synonym pystr = "nat list"

definition ustr :: "string \<Rightarrow> pystr" where
  "ustr s = map of_char s"

datatype py_error =
    TypeError | ValueError | OverflowError | AttributeError
  | OSError | UnicodeEncodeError | JSONDecodeError

text \<open>A Python float: a finite value (the rational it denotes), minus zero, or a special.\<close>

datatype pyfloat = Finite rat | NegZero | PosInf | NegInf | NaN

text \<open>
  What \<^verbatim>\<open>json.loads\<close> returns. A \<^verbatim>\<open>dict\<close> keeps its keys in insertion order, each
  key once; \<open>JObj\<close> lists its items in that order.
\<close>

datatype json =
    JNull | JBool bool | JInt int | JFloat pyfloat | JStr pystr
  | JArr "json list" | JObj "(pystr \<times> json) list"

record runtime =
  json_loads :: "string \<Rightarrow> py_error + json"
    \<comment> \<open>\<^verbatim>\<open>json.loads(post_data.decode('utf-8'))\<close>: the decoded value, or the exception\<close>
  float_repr :: "pyfloat \<Rightarrow> pystr"
    \<comment> \<open>\<^verbatim>\<open>float.__repr__\<close>\<close>
  container_str :: "json \<Rightarrow> pystr"
    \<comment> \<open>\<^verbatim>\<open>str\<close> of a list or a dict\<close>
  utcoffset :: "int \<Rightarrow> int"
    \<comment> \<open>seconds east of UTC of the local time zone at an epoch second\<close>
  version_string :: string
  date_time_string :: "int \<Rightarrow> string"
    \<comment> \<open>the \<^verbatim>\<open>Date\<close> header value at an epoch second\<close>
  int_max_str_digits :: nat
    \<comment> \<open>\<^verbatim>\<open>sys.get_int_max_str_digits()\<close>: 4300 by default, 0 for no limit\<close>
  pad_year :: bool
    \<comment> \<open>whether the C library's \<^verbatim>\<open>strftime\<close> fills \<^verbatim>\<open>%Y\<close> with zeros to four
        digits; glibc writes a year below 1000 as it is\<close>

subsection \<open>Decimal and hexadecimal rendering\<close>

fun dec_nat :: "nat \<Rightarrow> pystr" where
  "dec_nat n = (if n < 10 then [48 + n] else dec_nat (n div 10) @ [48 + n mod 10])"

declare dec_nat.simps [simp del]

definition dec_int :: "int \<Rightarrow> pystr" where
  "dec_int i = (if i < 0 then 45 # dec_nat (nat (- i)) else dec_nat (nat i))"

text \<open>\<open>zpad w n\<close>: \<open>n\<close> in decimal, filled with zeros on the left up to width \<open>w\<close>.\<close>

definition zpad :: "nat \<Rightarrow> nat \<Rightarrow> pystr" where
  "zpad w n = replicate (w - length (dec_nat n)) 48 @ dec_nat n"

definition hex_digit :: "nat \<Rightarrow> nat" where
  "hex_digit d = (if d < 10 then 48 + d else 87 + d)"

text \<open>\<^verbatim>\<open>'\\u{0:04x}'.format(n)\<close> for \<open>n < 65536\<close>.\<close>

definition u_escape :: "nat \<Rightarrow> pystr" where
  "u_escape n = [92, 117, hex_digit (n div 4096 mod 16), hex_digit (n div 256 mod 16),
                 hex_digit (n div 16 mod 16), hex_digit (n mod 16)]"

subsection \<open>\<^verbatim>\<open>json.dumps\<close> and \<^verbatim>\<open>str\<close>\<close>

text \<open>
  \<^verbatim>\<open>json.dumps(log_entry)\<close> with its defaults: \<^verbatim>\<open>ensure_ascii=True\<close>, item separator
  \<^verbatim>\<open>', '\<close>, key separator \<^verbatim>\<open>': '\<close>, \<^verbatim>\<open>allow_nan=True\<close>. Every character outside
  \<^verbatim>\<open>' '\<close> .. \<^verbatim>\<open>'~'\<close> is escaped, a code point above \<open>0xFFFF\<close> as a surrogate pair.
\<close>

definition escape_char :: "nat \<Rightarrow> pystr" where
  "escape_char c =
     (if c = 34 then [92, 34]
      else if c = 92 then [92, 92]
      else if c = 10 then [92, 110]
      else if c = 13 then [92, 114]
      else if c = 9 then [92, 116]
      else if c = 8 then [92, 98]
      else if c = 12 then [92, 102]
      else if 32 \<le> c \<and> c \<le> 126 then [c]
      else if c < 65536 then u_escape c
      else u_escape (55296 + (c - 65536) div 1024 mod 1024)
         @ u_escape (56320 + (c - 65536) mod 1024))"

definition encode_str :: "pystr \<Rightarrow> pystr" where
  "encode_str s = [34] @ concat (map escape_char s) @ [34]"

fun join :: "pystr \<Rightarrow> pystr list \<Rightarrow> pystr" where
  "join sep [] = []"
| "join sep [x] = x"
| "join sep (x # y # ys) = x @ sep @ join sep (y # ys)"

fun json_dumps :: "runtime \<Rightarrow> json \<Rightarrow> pystr" where
  "json_dumps rt JNull = ustr ''null''"
| "json_dumps rt (JBool b) = (if b then ustr ''true'' else ustr ''false'')"
| "json_dumps rt (JInt i) = dec_int i"
| "json_dumps rt (JFloat f) =
     (case f of
        NaN \<Rightarrow> ustr ''NaN''
      | PosInf \<Rightarrow> ustr ''Infinity''
      | NegInf \<Rightarrow> ustr ''-Infinity''
      | _ \<Rightarrow> float_repr rt f)"
| "json_dumps rt (JStr s) = encode_str s"
| "json_dumps rt (JArr xs) = [91] @ join (ustr '', '') (map (json_dumps rt) xs) @ [93]"
| "json_dumps rt (JObj kvs) =
     [123] @ join (ustr '', '')
               (map (\<lambda>kv. encode_str (fst kv) @ ustr '': '' @ json_dumps rt (snd kv)) kvs)
     @ [125]"

text \<open>
  What an f-string puts in for \<^verbatim>\<open>{log_type}\<close>: \<^verbatim>\<open>str(log_type)\<close>. For a \<^verbatim>\<open>str\<close>
  that is the string itself, with nothing escaped.
\<close>

definition py_str :: "runtime \<Rightarrow> json \<Rightarrow> pystr" where
  "py_str rt v =
     (case v of
        JStr s \<Rightarrow> s
      | JInt i \<Rightarrow> dec_int i
      | JBool b \<Rightarrow> (if b then ustr ''True'' else ustr ''False'')
      | JNull \<Rightarrow> ustr ''None''
      | JFloat f \<Rightarrow> float_repr rt f
      | _ \<Rightarrow> container_str rt v)"

text \<open>\<^verbatim>\<open>dict.get(key, default)\<close> on the items of a dict.\<close>

definition dict_get :: "(pystr \<times> json) list \<Rightarrow> pystr \<Rightarrow> json \<Rightarrow> json" where
  "dict_get kvs k d = (case map_of kvs k of None \<Rightarrow> d | Some v \<Rightarrow> v)"

subsection \<open>Float arithmetic\<close>

text \<open>
  IEEE 754 binary64, round to nearest, ties to even: \<open>double_round q\<close> is the float
  nearest to the rational \<open>q\<close>. The unit in the last place of a value in
  \<open>[2\<^sup>e, 2\<^sup>e\<^sup>+\<^sup>1)\<close> is \<open>2\<^sup>e\<^sup>-\<^sup>5\<^sup>2\<close>, and never less than \<open>2\<^sup>-\<^sup>1\<^sup>0\<^sup>7\<^sup>4\<close>.
\<close>

definition pow2 :: "int \<Rightarrow> rat" where
  "pow2 e = (if 0 \<le> e then 2 ^ nat e else 1 / 2 ^ nat (- e))"

definition round_half_even :: "rat \<Rightarrow> int" where
  "round_half_even x =
     (let f = \<lfloor>x\<rfloor>; r = x - of_int f
      in if r < 1 / 2 then f else if 1 / 2 < r then f + 1
         else if even f then f else f + 1)"

text \<open>\<open>ilog2 a\<close> is \<open>\<lfloor>log\<^sub>2 a\<rfloor>\<close> for \<open>0 < a\<close>.\<close>

definition ilog2 :: "rat \<Rightarrow> int" where
  "ilog2 a = (if 1 \<le> a then bitlen \<lfloor>a\<rfloor> - 1 else - bitlen (\<lceil>1 / a\<rceil> - 1))"

definition double_round :: "rat \<Rightarrow> pyfloat" where
  "double_round q =
     (if q = 0 then Finite 0
      else let a = \<bar>q\<bar>;
               u = max (ilog2 a - 52) (- 1074);
               v = of_int (round_half_even (a / pow2 u)) * pow2 u
           in if pow2 1024 \<le> v then (if q < 0 then NegInf else PosInf)
              else if v = 0 then (if q < 0 then NegZero else Finite 0)
              else Finite (if q < 0 then - v else v))"

text \<open>
  \<^verbatim>\<open>x / 1000\<close>. On an \<^verbatim>\<open>int\<close> (a \<^verbatim>\<open>bool\<close> is one) true division is correctly rounded
  and raises \<^verbatim>\<open>OverflowError\<close> when the quotient is too large for a float; on a float it
  is IEEE division; any other operand raises \<^verbatim>\<open>TypeError\<close>.
\<close>

definition int_truediv :: "int \<Rightarrow> int \<Rightarrow> py_error + pyfloat" where
  "int_truediv a b =
     (case double_round (of_int a / of_int b) of
        PosInf \<Rightarrow> Inl OverflowError
      | NegInf \<Rightarrow> Inl OverflowError
      | f \<Rightarrow> Inr f)"

definition float_truediv :: "pyfloat \<Rightarrow> int \<Rightarrow> pyfloat" where
  "float_truediv f b =
     (case f of
        Finite q \<Rightarrow> double_round (q / of_int b)
      | _ \<Rightarrow> f)"

definition truediv_1000 :: "json \<Rightarrow> py_error + pyfloat" where
  "truediv_1000 v =
     (case v of
        JInt i \<Rightarrow> int_truediv i 1000
      | JBool b \<Rightarrow> int_truediv (if b then 1 else 0) 1000
      | JFloat f \<Rightarrow> Inr (float_truediv f 1000)
      | _ \<Rightarrow> Inl TypeError)"

subsection \<open>\<^verbatim>\<open>datetime.fromtimestamp\<close> and \<^verbatim>\<open>strftime\<close>\<close>

record datetime =
  year :: int
  month :: int
  day :: int
  hour :: int
  minute :: int
  second :: int
  microsecond :: int

text \<open>
  The first step of \<^verbatim>\<open>fromtimestamp(t)\<close>: \<^verbatim>\<open>frac, t = modf(t)\<close>,
  \<^verbatim>\<open>us = round(frac * 1e6)\<close> (a float product, then rounding half to even), and the carry
  into the seconds. A NaN raises \<^verbatim>\<open>ValueError\<close>; an infinity, or seconds outside a
  64-bit \<^verbatim>\<open>time_t\<close>, \<^verbatim>\<open>OverflowError\<close>.
\<close>

definition trunc :: "rat \<Rightarrow> int" where
  "trunc q = (if q < 0 then \<lceil>q\<rceil> else \<lfloor>q\<rfloor>)"

definition to_timeval :: "pyfloat \<Rightarrow> py_error + int \<times> int" where
  "to_timeval f =
     (case f of
        NaN \<Rightarrow> Inl ValueError
      | PosInf \<Rightarrow> Inl OverflowError
      | NegInf \<Rightarrow> Inl OverflowError
      | NegZero \<Rightarrow> Inr (0, 0)
      | Finite q \<Rightarrow>
          (let t = trunc q;
               frac = q - of_int t;
               us = (case double_round (frac * 1000000) of
                       Finite p \<Rightarrow> round_half_even p | _ \<Rightarrow> 0);
               r = (if 1000000 \<le> us then (t + 1, us - 1000000)
                    else if us < 0 then (t - 1, us + 1000000)
                    else (t, us))
           in if fst r < - (2 ^ 63) \<or> 2 ^ 63 \<le> fst r then Inl OverflowError
              else Inr r))"

text \<open>Day number (days since 1970-01-01) to year, month, day of the proleptic Gregorian
  calendar.\<close>

definition civil_from_days :: "int \<Rightarrow> int \<times> int \<times> int" where
  "civil_from_days z0 =
     (let z = z0 + 719468;
          era = z div 146097;
          doe = z mod 146097;
          yoe = (doe - doe div 1460 + doe div 36524 - doe div 146096) div 365;
          doy = doe - (365 * yoe + yoe div 4 - yoe div 100);
          mp = (5 * doy + 2) div 153;
          d = doy - (153 * mp + 2) div 5 + 1;
          m = (if mp < 10 then mp + 3 else mp - 9);
          y = yoe + era * 400 + (if m \<le> 2 then 1 else 0)
      in (y, m, d))"

text \<open>
  \<^verbatim>\<open>time.localtime(t)\<close>, which raises \<^verbatim>\<open>OSError\<close> when the year less 1900 does not
  fit the C library's 32-bit field \<^verbatim>\<open>tm_year\<close>, followed by the \<^verbatim>\<open>datetime\<close>
  constructor, which raises \<^verbatim>\<open>ValueError\<close> for a year outside 1 .. 9999.
\<close>

definition local_datetime :: "runtime \<Rightarrow> int \<Rightarrow> int \<Rightarrow> py_error + datetime" where
  "local_datetime rt t us =
     (let l = t + utcoffset rt t;
          sod = l mod 86400
      in case civil_from_days (l div 86400) of
           (y, m, d) \<Rightarrow>
             if y - 1900 < - (2 ^ 31) \<or> 2 ^ 31 \<le> y - 1900 then Inl OSError
             else if y < 1 \<or> 9999 < y then Inl ValueError
             else Inr \<lparr>year = y, month = m, day = d, hour = sod div 3600,
                       minute = sod mod 3600 div 60, second = sod mod 60,
                       microsecond = us\<rparr>)"

text \<open>
  \<^verbatim>\<open>datetime.fromtimestamp(t)\<close> without a time zone argument. After the result it
  builds a second \<^verbatim>\<open>datetime\<close> 24 hours earlier to detect a repeated interval, and a
  third when the UTC offset went down in between; each of them can raise as well.
\<close>

definition fromtimestamp :: "runtime \<Rightarrow> pyfloat \<Rightarrow> py_error + datetime" where
  "fromtimestamp rt f =
     (case to_timeval f of
        Inl e \<Rightarrow> Inl e
      | Inr (t, us) \<Rightarrow>
          (case local_datetime rt t us of
             Inl e \<Rightarrow> Inl e
           | Inr result \<Rightarrow>
               (case local_datetime rt (t - 86400) us of
                  Inl e \<Rightarrow> Inl e
                | Inr probe1 \<Rightarrow>
                    (let trans = utcoffset rt t - utcoffset rt (t - 86400)
                     in if trans < 0
                        then (case local_datetime rt (t + trans) us of
                                Inl e \<Rightarrow> Inl e
                              | Inr probe2 \<Rightarrow> Inr result)
                        else Inr result))))"

text \<open>\<^verbatim>\<open>%Y\<close>, as the platform writes it.\<close>

definition year_str :: "runtime \<Rightarrow> int \<Rightarrow> pystr" where
  "year_str rt y = (if pad_year rt then zpad 4 (nat y) else dec_nat (nat y))"

text \<open>\<^verbatim>\<open>strftime('%Y-%m-%d %H:%M:%S.%f')\<close>.\<close>

definition strftime :: "runtime \<Rightarrow> datetime \<Rightarrow> pystr" where
  "strftime rt dt =
     year_str rt (year dt) @ ustr ''-'' @ zpad 2 (nat (month dt)) @ ustr ''-''
     @ zpad 2 (nat (day dt)) @ ustr '' '' @ zpad 2 (nat (hour dt)) @ ustr '':''
     @ zpad 2 (nat (minute dt)) @ ustr '':'' @ zpad 2 (nat (second dt)) @ ustr ''.''
     @ zpad 6 (nat (microsecond dt))"

text \<open>Line 29: the display timestamp of a log entry, with the slice \<^verbatim>\<open>[:-3]\<close>.\<close>

definition format_timestamp :: "runtime \<Rightarrow> json \<Rightarrow> py_error + pystr" where
  "format_timestamp rt ts =
     (case truediv_1000 ts of
        Inl e \<Rightarrow> Inl e
      | Inr f \<Rightarrow>
          (case fromtimestamp rt f of
             Inl e \<Rightarrow> Inl e
           | Inr dt \<Rightarrow> Inr (take (length (strftime rt dt) - 3) (strftime rt dt))))"

subsection \<open>Requests, responses and the server's state\<close>

text \<open>
  A parsed request as \<^verbatim>\<open>BaseHTTPRequestHandler\<close> hands it to a \<^verbatim>\<open>do_*\<close> method:
  the method name, the path (with its query string, if any), the header lines in order,
  the bytes that can still be read from \<^verbatim>\<open>rfile\<close> before the end of the stream, and
  the clock when the request is handled. Header text is Latin-1, one \<open>char\<close> per
  character.
\<close>

record request =
  command :: string
  path :: string
  headers :: "(string \<times> string) list"
  rfile :: string
  arrival :: int

record response =
  status :: nat
  resp_headers :: "(string \<times> string) list"
  body :: string

text \<open>
  What the client gets: a response written by the handler; the error page that the base
  class sends on its own (\<^verbatim>\<open>send_error\<close>); or nothing, when an exception leaves the
  handler method and the connection is closed without a response.
\<close>

datatype reply = Reply response | ErrorPage nat | Raised py_error

datatype console_line = ErrorProcessing py_error | Traceback py_error

text \<open>
  The state the handler works on: the module constant \<^verbatim>\<open>LOG_FILE\<close>, the text of every
  file, whether appending to a file currently fails in the operating system (directory
  removed, disk full, no permission), and what was printed to the console.
\<close>

record server =
  log_file :: pystr
  files :: "pystr \<rightharpoonup> pystr"
  append_fails :: bool
  console :: "console_line list"

subsection \<open>Module level: \<^verbatim>\<open>LOG_DIR\<close>, \<^verbatim>\<open>LOG_FILE\<close>\<close>

definition LOG_DIR :: pystr where
  "LOG_DIR = ustr ''logs''"

text \<open>
  Line 14, evaluated once when the module is loaded, at epoch second \<open>now\<close>:
  \<^verbatim>\<open>os.path.join(LOG_DIR, f"lorafactory_{datetime.now().strftime('%Y%m%d')}.log")\<close>.
\<close>

definition LOG_FILE :: "runtime \<Rightarrow> int \<Rightarrow> pystr" where
  "LOG_FILE rt now =
     (case civil_from_days ((now + utcoffset rt now) div 86400) of
        (y, m, d) \<Rightarrow>
          LOG_DIR @ ustr ''/'' @ ustr ''lorafactory_''
          @ year_str rt y @ zpad 2 (nat m) @ zpad 2 (nat d) @ ustr ''.log'')"

text \<open>The state when \<^verbatim>\<open>serve_forever\<close> starts, over the files \<open>fs\<close> found on disk.\<close>

definition run_server :: "runtime \<Rightarrow> int \<Rightarrow> (pystr \<rightharpoonup> pystr) \<Rightarrow> server" where
  "run_server rt now fs =
     \<lparr>log_file = LOG_FILE rt now, files = fs, append_fails = False, console = []\<rparr>"

subsection \<open>What the handler uses of the base class\<close>

definition lower_char :: "char \<Rightarrow> char" where
  "lower_char c =
     (if 65 \<le> (of_char c :: nat) \<and> (of_char c :: nat) \<le> 90
      then char_of ((of_char c :: nat) + 32) else c)"

text \<open>
  \<^verbatim>\<open>self.headers[name]\<close>: the value of the first header line with that name, compared
  without regard to case, or \<^verbatim>\<open>None\<close>. The names asked for here are ASCII, and lowering
  a Latin-1 character outside ASCII never gives an ASCII one.
\<close>

definition get_header :: "(string \<times> string) list \<Rightarrow> string \<Rightarrow> string option" where
  "get_header hs name =
     map_of (map (\<lambda>kv. (map lower_char (fst kv), snd kv)) hs) (map lower_char name)"

text \<open>
  \<^verbatim>\<open>self.rfile.read(n)\<close> on the buffered reader of the connection: up to \<open>n\<close> bytes,
  everything up to the end of the stream for \<open>n = -1\<close>, and \<^verbatim>\<open>ValueError\<close> (read length
  must be non-negative or -1) for a smaller \<open>n\<close>.
\<close>

definition rfile_read :: "int \<Rightarrow> string \<Rightarrow> py_error + string" where
  "rfile_read n data =
     (if n < - 1 then Inl ValueError
      else if n = - 1 then Inr data
      else Inr (take (nat n) data))"

text \<open>
  \<^verbatim>\<open>send_response(code)\<close> starts a response and always adds the \<^verbatim>\<open>Server\<close> and
  \<^verbatim>\<open>Date\<close> headers; \<^verbatim>\<open>send_header\<close> adds one more; \<^verbatim>\<open>wfile.write\<close> adds to the body.
\<close>

definition send_response :: "runtime \<Rightarrow> request \<Rightarrow> nat \<Rightarrow> response" where
  "send_response rt req code =
     \<lparr>status = code,
      resp_headers = [(''Server'', version_string rt),
                      (''Date'', date_time_string rt (arrival req))],
      body = []\<rparr>"

definition send_header :: "string \<Rightarrow> string \<Rightarrow> response \<Rightarrow> response" where
  "send_header k v r = r\<lparr>resp_headers := resp_headers r @ [(k, v)]\<rparr>"

definition wfile_write :: "string \<Rightarrow> response \<Rightarrow> response" where
  "wfile_write b r = r\<lparr>body := body r @ b\<rparr>"

text \<open>
  \<^verbatim>\<open>int(s)\<close> on a header value: white space around, an optional sign, decimal digits
  with single underscores allowed between them. More digits than the interpreter's limit
  raise \<^verbatim>\<open>ValueError\<close>, as does anything else.
\<close>

definition is_space :: "char \<Rightarrow> bool" where
  "is_space c = ((of_char c :: nat) \<in> {9, 10, 11, 12, 13, 32, 133, 160})"

definition is_digit :: "char \<Rightarrow> bool" where
  "is_digit c = (48 \<le> (of_char c :: nat) \<and> (of_char c :: nat) \<le> 57)"

fun digits_ok :: "string \<Rightarrow> bool" where
  "digits_ok [] = False"
| "digits_ok [c] = is_digit c"
| "digits_ok (c # d # cs) =
     (is_digit c \<and> (if d = CHR ''_'' then digits_ok cs else digits_ok (d # cs)))"

definition digits_value :: "string \<Rightarrow> int" where
  "digits_value cs =
     foldl (\<lambda>acc c. 10 * acc + (int (of_char c) - 48)) 0 (filter is_digit cs)"

definition py_int :: "runtime \<Rightarrow> string \<Rightarrow> py_error + int" where
  "py_int rt s =
     (let t = rev (dropWhile is_space (rev (dropWhile is_space s)));
          neg = (t \<noteq> [] \<and> hd t = CHR ''-'');
          ds = (if t \<noteq> [] \<and> (hd t = CHR ''-'' \<or> hd t = CHR ''+'') then tl t else t)
      in if \<not> digits_ok ds then Inl ValueError
         else if 0 < int_max_str_digits rt
                 \<and> int_max_str_digits rt < length (filter is_digit ds)
         then Inl ValueError
         else Inr (if neg then - digits_value ds else digits_value ds))"

subsection \<open>The handler: \<^verbatim>\<open>LogHandler\<close>\<close>

text \<open>
  Lines 33 and 34: \<^verbatim>\<open>open(LOG_FILE, 'a', encoding='utf-8')\<close> creates the file when it
  is not there; \<^verbatim>\<open>f.write(line)\<close> encodes the whole line before anything reaches
  the file, and UTF-8 has no encoding for a surrogate code point. The result is the
  exception raised, if any, and the state afterwards.
\<close>

definition is_surrogate :: "nat \<Rightarrow> bool" where
  "is_surrogate c = (55296 \<le> c \<and> c \<le> 57343)"

definition append_line :: "server \<Rightarrow> pystr \<Rightarrow> py_error option \<times> server" where
  "append_line s line =
     (if append_fails s then (Some OSError, s)
      else let old = (case files s (log_file s) of None \<Rightarrow> [] | Some c \<Rightarrow> c)
           in if list_ex is_surrogate line
              then (Some UnicodeEncodeError, s\<lparr>files := (files s)(log_file s \<mapsto> old)\<rparr>)
              else (None, s\<lparr>files := (files s)(log_file s \<mapsto> old @ line)\<rparr>))"

text \<open>
  Lines 26 to 34, the body of the \<^verbatim>\<open>try\<close>. \<^verbatim>\<open>log_entry.get\<close> exists on a dict
  only: on any other value line 29 raises \<^verbatim>\<open>AttributeError\<close>.
\<close>

definition log_line :: "runtime \<Rightarrow> json \<Rightarrow> py_error + pystr" where
  "log_line rt log_entry =
     (case log_entry of
        JObj kvs \<Rightarrow>
          (case format_timestamp rt (dict_get kvs (ustr ''timestamp'') (JInt 0)) of
             Inl e \<Rightarrow> Inl e
           | Inr timestamp \<Rightarrow>
               (let log_type = dict_get kvs (ustr ''type'') (JStr (ustr ''UNKNOWN''))
                in Inr (ustr ''['' @ timestamp @ ustr ''] ['' @ py_str rt log_type
                        @ ustr ''] '' @ json_dumps rt log_entry @ [10])))
      | _ \<Rightarrow> Inl AttributeError)"

definition try_body :: "runtime \<Rightarrow> string \<Rightarrow> server \<Rightarrow> py_error option \<times> server" where
  "try_body rt post_data s =
     (case json_loads rt post_data of
        Inl e \<Rightarrow> (Some e, s)
      | Inr log_entry \<Rightarrow>
          (case log_line rt log_entry of
             Inl e \<Rightarrow> (Some e, s)
           | Inr line \<Rightarrow> append_line s line))"

text \<open>The bytes \<^verbatim>\<open>b'{"status":"ok"}'\<close>; \<open>CHR 0x22\<close> is the double quote.\<close>

definition status_ok :: string where
  "status_ok = ''{'' @ [CHR 0x22] @ ''status'' @ [CHR 0x22] @ '':'' @ [CHR 0x22] @ ''ok''
               @ [CHR 0x22] @ ''}''"

text \<open>
  \<^verbatim>\<open>do_POST\<close>. Lines 22 and 23 stand before the \<^verbatim>\<open>try\<close>: \<^verbatim>\<open>int(None)\<close> for a
  missing header raises \<^verbatim>\<open>TypeError\<close>, \<^verbatim>\<open>int\<close> of a value that is no number
  \<^verbatim>\<open>ValueError\<close>, as does the read of a length below -1, and each of them leaves the
  method.
\<close>

definition do_POST :: "runtime \<Rightarrow> request \<Rightarrow> server \<Rightarrow> reply \<times> server" where
  "do_POST rt req s =
     (if path req = ''/log'' then
        (case get_header (headers req) ''Content-Length'' of
           None \<Rightarrow> (Raised TypeError, s)
         | Some v \<Rightarrow>
             (case py_int rt v of
                Inl e \<Rightarrow> (Raised e, s)
              | Inr content_length \<Rightarrow>
                  (case rfile_read content_length (rfile req) of
                     Inl e \<Rightarrow> (Raised e, s)
                   | Inr post_data \<Rightarrow>
                       (case try_body rt post_data s of
                          (None, s') \<Rightarrow>
                            (Reply (wfile_write status_ok
                                     (send_header ''Content-Type'' ''application/json''
                                       (send_header ''Access-Control-Allow-Origin'' ''*''
                                         (send_response rt req 200)))), s')
                        | (Some e, s') \<Rightarrow>
                            (Reply (send_response rt req 500),
                             s'\<lparr>console := console s' @ [ErrorProcessing e]\<rparr>)))))
      else (Reply (send_response rt req 404), s))"

definition do_OPTIONS :: "runtime \<Rightarrow> request \<Rightarrow> server \<Rightarrow> reply \<times> server" where
  "do_OPTIONS rt req s =
     (Reply (send_header ''Access-Control-Allow-Headers'' ''Content-Type''
              (send_header ''Access-Control-Allow-Methods'' ''POST, OPTIONS''
                (send_header ''Access-Control-Allow-Origin'' ''*''
                  (send_response rt req 200)))), s)"

text \<open>
  The dispatch of the base class (\<^verbatim>\<open>handle_one_request\<close>): the method
  \<^verbatim>\<open>do_<command>\<close> when the handler class has one, and the error page 501 otherwise.
  \<^verbatim>\<open>LogHandler\<close> has \<^verbatim>\<open>do_POST\<close> and \<^verbatim>\<open>do_OPTIONS\<close>. An exception that leaves
  the method is reported by the server (\<^verbatim>\<open>handle_error\<close> prints the traceback) and the
  connection is closed.
\<close>

definition handle_one_request :: "runtime \<Rightarrow> request \<Rightarrow> server \<Rightarrow> reply \<times> server" where
  "handle_one_request rt req s =
     (if command req = ''POST'' then
        (case do_POST rt req s of
           (Raised e, s') \<Rightarrow> (Raised e, s'\<lparr>console := console s' @ [Traceback e]\<rparr>)
         | r \<Rightarrow> r)
      else if command req = ''OPTIONS'' then do_OPTIONS rt req s
      else (ErrorPage 501, s))"

text \<open>\<^verbatim>\<open>serve_forever\<close>, one request after the other: the state after the requests.\<close>

fun serve_forever :: "runtime \<Rightarrow> server \<Rightarrow> request list \<Rightarrow> server" where
  "serve_forever rt s [] = s"
| "serve_forever rt s (req # reqs) =
     serve_forever rt (snd (handle_one_request rt req s)) reqs"

subsection \<open>Observations on a reply\<close>

definition reply_status :: "reply \<Rightarrow> nat option" where
  "reply_status r =
     (case r of Reply resp \<Rightarrow> Some (status resp) | ErrorPage n \<Rightarrow> Some n | Raised e \<Rightarrow> None)"

definition reply_headers :: "reply \<Rightarrow> (string \<times> string) list" where
  "reply_headers r = (case r of Reply resp \<Rightarrow> resp_headers resp | _ \<Rightarrow> [])"

text \<open>The text of the log file, empty while the file does not exist.\<close>

definition log_text :: "server \<Rightarrow> pystr" where
  "log_text s = (case files s (log_file s) of None \<Rightarrow> [] | Some c \<Rightarrow> c)"

subsection \<open>A runtime and requests for the worked examples\<close>

text \<open>
  The examples run in UTC, with \<^verbatim>\<open>json.loads\<close> tabulated on the bodies they post:
  \<^verbatim>\<open>{"timestamp":1700000000000,"type":"INFO","msg":"hello"}\<close>, \<^verbatim>\<open>{}\<close>,
  \<^verbatim>\<open>[1, 2]\<close>, \<^verbatim>\<open>{"timestamp":true}\<close>, \<^verbatim>\<open>{"timestamp":8589934592123}\<close>,
  \<^verbatim>\<open>{"type":"a\nb"}\<close>, \<^verbatim>\<open>{"timestamp":"soon"}\<close>; every other body is taken not to
  be JSON.
\<close>

definition dq :: string where
  "dq = [CHR 0x22]"

definition body_hello :: string where
  "body_hello = ''{'' @ dq @ ''timestamp'' @ dq @ '':1700000000000,'' @ dq @ ''type'' @ dq
                @ '':'' @ dq @ ''INFO'' @ dq @ '','' @ dq @ ''msg'' @ dq @ '':'' @ dq
                @ ''hello'' @ dq @ ''}''"

definition body_true :: string where
  "body_true = ''{'' @ dq @ ''timestamp'' @ dq @ '':true}''"

definition body_far :: string where
  "body_far = ''{'' @ dq @ ''timestamp'' @ dq @ '':8589934592123}''"

definition body_two_lines :: string where
  "body_two_lines = ''{'' @ dq @ ''type'' @ dq @ '':'' @ dq @ ''a'' @ [CHR 0x5C] @ ''nb''
                    @ dq @ ''}''"

definition entry_hello :: json where
  "entry_hello = JObj [(ustr ''timestamp'', JInt 1700000000000),
                       (ustr ''type'', JStr (ustr ''INFO'')),
                       (ustr ''msg'', JStr (ustr ''hello''))]"

definition entry_true :: json where
  "entry_true = JObj [(ustr ''timestamp'', JBool True)]"

definition entry_two_lines :: json where
  "entry_two_lines = JObj [(ustr ''type'', JStr [97, 10, 98])]"

definition body_text_timestamp :: string where
  "body_text_timestamp = ''{'' @ dq @ ''timestamp'' @ dq @ '':'' @ dq @ ''soon'' @ dq @ ''}''"

definition entry_text_timestamp :: json where
  "entry_text_timestamp = JObj [(ustr ''timestamp'', JStr (ustr ''soon''))]"

definition example_loads :: "string \<Rightarrow> py_error + json" where
  "example_loads b =
     (if b = body_hello then Inr entry_hello
      else if b = ''{}'' then Inr (JObj [])
      else if b = ''[1, 2]'' then Inr (JArr [JInt 1, JInt 2])
      else if b = body_true then Inr entry_true
      else if b = body_far then Inr (JObj [(ustr ''timestamp'', JInt 8589934592123)])
      else if b = body_two_lines then Inr entry_two_lines
      else if b = body_text_timestamp then Inr entry_text_timestamp
      else Inl JSONDecodeError)"

definition example_runtime :: runtime where
  "example_runtime =
     \<lparr>json_loads = example_loads,
      float_repr = (\<lambda>f. ustr ''0.0''),
      container_str = (\<lambda>v. ustr ''[]''),
      utcoffset = (\<lambda>t. 0),
      version_string = ''BaseHTTP/0.6 Python/3.11.10'',
      date_time_string = (\<lambda>t. ''Tue, 14 Nov 2023 22:13:20 GMT''),
      int_max_str_digits = 4300,
      pad_year = False\<rparr>"

definition example_request :: "string \<Rightarrow> string \<Rightarrow> request" where
  "example_request meth p =
     \<lparr>command = meth, path = p, headers = [], rfile = [], arrival = 1700000000\<rparr>"

text \<open>A POST to \<^verbatim>\<open>/log\<close> with the given \<^verbatim>\<open>Content-Length\<close> value and body.\<close>

definition example_post :: "string \<Rightarrow> string \<Rightarrow> request" where
  "example_post len b =
     \<lparr>command = ''POST'', path = ''/log'', headers = [(''Content-Length'', len)],
      rfile = b, arrival = 1700000000\<rparr>"

text \<open>The server started at 2023-11-14 22:13:20 UTC in an empty directory.\<close>

definition example_server :: server where
  "example_server = run_server example_runtime 1700000000 Map.empty"

subsection \<open>Notions used to state the properties\<close>



text \<open>The rational a float denotes (zero for minus zero) and whether it is finite.\<close>

definition fval :: "pyfloat \<Rightarrow> rat" where
  "fval f = (case f of Finite q \<Rightarrow> q | _ \<Rightarrow> 0)"

definition is_finite :: "pyfloat \<Rightarrow> bool" where
  "is_finite f = (case f of Finite q \<Rightarrow> True | NegZero \<Rightarrow> True | _ \<Rightarrow> False)"

text \<open>The number of line breaks in a text.\<close>

definition newlines :: "pystr \<Rightarrow> nat" where
  "newlines s = length (filter (\<lambda>c. c = 10) s)"

text \<open>
  The display timestamp as the specification words it, for a timestamp of \<open>ms\<close> whole
  milliseconds: the local wall-clock time of epoch second \<open>ms div 1000\<close> as
  \<^verbatim>\<open>YYYY-MM-DD HH:MM:SS\<close>, a dot, and the three digits of \<open>ms mod 1000\<close>.
\<close>

definition wall_clock :: "runtime \<Rightarrow> int \<Rightarrow> pystr" where
  "wall_clock rt t =
     (let l = t + utcoffset rt t;
          sod = l mod 86400
      in case civil_from_days (l div 86400) of
           (y, mo, d) \<Rightarrow>
             zpad 4 (nat y) @ ustr ''-'' @ zpad 2 (nat mo) @ ustr ''-'' @ zpad 2 (nat d)
             @ ustr '' '' @ zpad 2 (nat (sod div 3600)) @ ustr '':''
             @ zpad 2 (nat (sod mod 3600 div 60)) @ ustr '':'' @ zpad 2 (nat (sod mod 60)))"

definition spec_display :: "runtime \<Rightarrow> int \<Rightarrow> pystr" where
  "spec_display rt ms = wall_clock rt (ms div 1000) @ ustr ''.'' @ zpad 3 (nat (ms mod 1000))"

text \<open>Lines that the examples write.\<close>

definition line_two_lines :: pystr where
  "line_two_lines = ustr ''[1970-01-01 00:00:00.000] ['' @ [97, 10, 98] @ ustr ''] ''
                    @ json_dumps example_runtime entry_two_lines @ [10]"

definition line_empty :: pystr where
  "line_empty = ustr ''[1970-01-01 00:00:00.000] [UNKNOWN] {}'' @ [10]"


section \<open>Properties\<close>

subsection \<open>Preflight and unknown routes\<close>

text \<open>
  C8, amended. Every \<^verbatim>\<open>OPTIONS\<close> request, whatever its path, receives status 200 with
  an empty body, and its headers are the \<^verbatim>\<open>Server\<close> and \<^verbatim>\<open>Date\<close> headers that
  \<^verbatim>\<open>send_response\<close> writes, followed by exactly the three CORS headers
  \<^verbatim>\<open>Access-Control-Allow-Origin: *\<close>, \<^verbatim>\<open>Access-Control-Allow-Methods: POST, OPTIONS\<close>
  and \<^verbatim>\<open>Access-Control-Allow-Headers: Content-Type\<close>. The server's state is unchanged.
\<close>

theorem options_reply:
  assumes "command req = ''OPTIONS''"
  shows "handle_one_request rt req s =
           (Reply \<lparr>status = 200,
                   resp_headers =
                     [(''Server'', version_string rt),
                      (''Date'', date_time_string rt (arrival req)),
                      (''Access-Control-Allow-Origin'', ''*''),
                      (''Access-Control-Allow-Methods'', ''POST, OPTIONS''),
                      (''Access-Control-Allow-Headers'', ''Content-Type'')],
                   body = []\<rparr>, s)"
  using assms
  by (simp add: handle_one_request_def do_OPTIONS_def send_header_def send_response_def)

theorem options_reply_witness:
  "command (example_request ''OPTIONS'' ''/anything'') = ''OPTIONS''
   \<and> reply_status (fst (handle_one_request example_runtime
          (example_request ''OPTIONS'' ''/anything'') example_server)) = Some 200"
proof -
  have c: "command (example_request ''OPTIONS'' ''/anything'') = ''OPTIONS''"
    by (simp add: example_request_def)
  show ?thesis
    using c options_reply [OF c, of example_runtime example_server]
    by (simp add: reply_status_def)
qed

text \<open>
  C8 as stated fails: the response to \<^verbatim>\<open>OPTIONS /log\<close> does not carry exactly the
  three CORS headers, because \<^verbatim>\<open>send_response\<close> has already written two.
\<close>

theorem options_headers_counterexample:
  "reply_headers (fst (handle_one_request example_runtime
      (example_request ''OPTIONS'' ''/log'') example_server))
   \<noteq> [(''Access-Control-Allow-Origin'', ''*''),
       (''Access-Control-Allow-Methods'', ''POST, OPTIONS''),
       (''Access-Control-Allow-Headers'', ''Content-Type'')]"
  by (simp add: handle_one_request_def do_OPTIONS_def send_header_def send_response_def
      reply_headers_def example_request_def)

text \<open>
  C3, amended. A request to a path other than \<^verbatim>\<open>/log\<close> is answered by its method:
  a \<^verbatim>\<open>POST\<close> receives status 404 with an empty body (and the \<^verbatim>\<open>Server\<close> and
  \<^verbatim>\<open>Date\<close> headers only), an \<^verbatim>\<open>OPTIONS\<close> receives status 200 with the CORS headers,
  and any other method, for which \<^verbatim>\<open>LogHandler\<close> defines no \<^verbatim>\<open>do_*\<close> method, receives
  the base class's error page 501. In each case the server's state is unchanged.
\<close>

theorem other_path_reply:
  assumes "path req \<noteq> ''/log''"
  shows "handle_one_request rt req s =
           (if command req = ''POST''
            then Reply \<lparr>status = 404,
                         resp_headers = [(''Server'', version_string rt),
                                         (''Date'', date_time_string rt (arrival req))],
                         body = []\<rparr>
            else if command req = ''OPTIONS''
            then Reply \<lparr>status = 200,
                         resp_headers =
                           [(''Server'', version_string rt),
                            (''Date'', date_time_string rt (arrival req)),
                            (''Access-Control-Allow-Origin'', ''*''),
                            (''Access-Control-Allow-Methods'', ''POST, OPTIONS''),
                            (''Access-Control-Allow-Headers'', ''Content-Type'')],
                         body = []\<rparr>
            else ErrorPage 501, s)"
  using assms
  by (simp add: handle_one_request_def do_POST_def do_OPTIONS_def send_header_def
      send_response_def)

theorem other_path_reply_witness:
  "path (example_request ''POST'' ''/other'') \<noteq> ''/log''
   \<and> reply_status (fst (handle_one_request example_runtime
          (example_request ''POST'' ''/other'') example_server)) = Some 404
   \<and> reply_status (fst (handle_one_request example_runtime
          (example_request ''OPTIONS'' ''/other'') example_server)) = Some 200
   \<and> reply_status (fst (handle_one_request example_runtime
          (example_request ''DELETE'' ''/other'') example_server)) = Some 501"
proof -
  have p: "path (example_request m ''/other'') \<noteq> ''/log''" for m
    by (simp add: example_request_def)
  show ?thesis
    using p
      other_path_reply [OF p [of "''POST''"], of example_runtime example_server]
      other_path_reply [OF p [of "''OPTIONS''"], of example_runtime example_server]
      other_path_reply [OF p [of "''DELETE''"], of example_runtime example_server]
    by (simp add: reply_status_def example_request_def)
qed

text \<open>
  C3 as stated fails: \<^verbatim>\<open>GET /other\<close> is not answered with 404. The handler has no
  \<^verbatim>\<open>do_GET\<close>, and the base class replies 501.
\<close>

theorem get_other_path_counterexample:
  "reply_status (fst (handle_one_request example_runtime
      (example_request ''GET'' ''/other'') example_server)) \<noteq> Some 404"
  by (simp add: handle_one_request_def reply_status_def example_request_def)

subsection \<open>Rounding to a float\<close>

lemma pow2_powi: "pow2 e = 2 powi e"
  by (simp add: pow2_def power_int_def inverse_eq_divide power_one_over)

lemma pow2_pos: "0 < pow2 e"
  by (simp add: pow2_powi)

lemma pow2_mono: "a \<le> b \<Longrightarrow> pow2 a \<le> pow2 b"
  by (simp add: pow2_powi power_int_increasing)

lemma round_half_even_near:
  assumes "\<bar>x - of_int n\<bar> < 1 / 2"
  shows "round_half_even x = n"
proof -
  have b: "of_int n - 1 / 2 < x" "x < of_int n + 1 / 2"
    using assms by linarith+
  have fl: "of_int \<lfloor>x\<rfloor> \<le> x" "x < of_int \<lfloor>x\<rfloor> + 1" by linarith+
  have "\<lfloor>x\<rfloor> = n \<or> \<lfloor>x\<rfloor> = n - 1"
  proof -
    have "of_int (n - 1) \<le> x" using b(1) by simp
    then have "n - 1 \<le> \<lfloor>x\<rfloor>" by (simp only: le_floor_iff)
    moreover have "x < of_int (n + 1)" using b(2) by simp
    then have "\<lfloor>x\<rfloor> < n + 1" by (simp only: floor_less_iff)
    ultimately show ?thesis by linarith
  qed
  then show ?thesis
  proof
    assume f: "\<lfloor>x\<rfloor> = n"
    have "x - of_int n < 1 / 2" using b(2) by linarith
    with f show ?thesis by (simp add: round_half_even_def Let_def)
  next
    assume f: "\<lfloor>x\<rfloor> = n - 1"
    have "1 / 2 < x - of_int (n - 1)" using b(1) by simp
    then have "\<not> x - of_int (n - 1) < 1 / 2" by linarith
    with f \<open>1 / 2 < x - of_int (n - 1)\<close> show ?thesis
      by (simp add: round_half_even_def Let_def)
  qed
qed

lemma round_half_even_err: "\<bar>of_int (round_half_even x) - x\<bar> \<le> 1 / 2"
proof -
  have "of_int \<lfloor>x\<rfloor> \<le> x" "x < of_int \<lfloor>x\<rfloor> + 1" by linarith+
  then show ?thesis
    by (auto simp: round_half_even_def Let_def abs_le_iff)
qed

lemma round_half_even_of_int: "round_half_even (of_int n) = n"
  by (simp add: round_half_even_def)

lemma ilog2_upper:
  assumes "0 < a" "a < 2 ^ N" "0 < N"
  shows "ilog2 a \<le> int N - 1"
proof (cases "1 \<le> a")
  case True
  have "\<lfloor>a\<rfloor> < 2 ^ N"
    using assms(2) by (metis floor_less_iff of_int_numeral of_int_power)
  then have "bitlen \<lfloor>a\<rfloor> \<le> int N"
    by (simp add: bitlen_le_iff_power)
  with True show ?thesis by (simp add: ilog2_def)
next
  case False
  have "0 \<le> bitlen (\<lceil>1 / a\<rceil> - 1)" by (rule bitlen_nonneg)
  with False assms(3) show ?thesis by (simp add: ilog2_def)
qed

lemma pow2_half: "pow2 u / 2 = pow2 (u - 1)"
  by (simp add: pow2_powi power_int_diff)

lemma double_round_near:
  assumes "\<bar>q\<bar> < 2 ^ N" "0 < N" "N \<le> 54"
  shows "is_finite (double_round q) \<and> \<bar>fval (double_round q) - q\<bar> \<le> pow2 (int N - 54)"
proof (cases "q = 0")
  case True
  then show ?thesis
    using pow2_pos [of "int N - 54"] by (simp add: double_round_def is_finite_def fval_def)
next
  case False
  define a where "a = \<bar>q\<bar>"
  define u where "u = max (ilog2 a - 52) (- 1074)"
  define x where "x = a / pow2 u"
  define v where "v = of_int (round_half_even x) * pow2 u"
  have a: "0 < a" "a < 2 ^ N" using False assms(1) by (simp_all add: a_def)
  have "ilog2 a \<le> int N - 1" using a assms(2) by (rule ilog2_upper)
  then have u: "u \<le> int N - 53" using assms(2) by (simp add: u_def)
  have pu: "0 < pow2 u" by (rule pow2_pos)
  have "\<bar>v - a\<bar> = \<bar>of_int (round_half_even x) - x\<bar> * pow2 u"
  proof -
    have "v - a = (of_int (round_half_even x) - x) * pow2 u"
      using pu by (simp add: v_def x_def algebra_simps)
    then show ?thesis using pu by (simp add: abs_mult)
  qed
  also have "\<dots> \<le> 1 / 2 * pow2 u"
    using round_half_even_err [of x] pu by (intro mult_right_mono) simp_all
  also have "\<dots> = pow2 (u - 1)" using pow2_half [of u] by simp
  also have "\<dots> \<le> pow2 (int N - 54)" using u by (intro pow2_mono) simp
  finally have err: "\<bar>v - a\<bar> \<le> pow2 (int N - 54)" .
  have "pow2 (int N - 54) \<le> pow2 0" using assms(3) by (intro pow2_mono) simp
  then have le1: "pow2 (int N - 54) \<le> 1" by (simp add: pow2_def)
  have "(2::rat) ^ N \<le> 2 ^ 54" using assms(3) by (intro power_increasing) simp_all
  then have "a + 1 < 2 ^ 1024" using a(2) by simp
  then have fin: "\<not> pow2 1024 \<le> v" using err le1 by (simp add: pow2_def abs_le_iff)
  have dr: "double_round q =
      (if v = 0 then (if q < 0 then NegZero else Finite 0)
       else Finite (if q < 0 then - v else v))"
    using False fin by (simp add: double_round_def Let_def a_def u_def x_def v_def)
  have "\<bar>fval (double_round q) - q\<bar> = \<bar>v - a\<bar>"
  proof (cases "q < 0")
    case True
    have "- v - q = - (v + q)" by simp
    then have "\<bar>- v - q\<bar> = \<bar>v + q\<bar>" by (simp only: abs_minus_cancel)
    moreover have "fval (double_round q) = - v" using True by (simp add: dr fval_def)
    moreover have "a = - q" using True by (simp add: a_def)
    ultimately show ?thesis by simp
  next
    case False
    then show ?thesis by (simp add: dr fval_def a_def)
  qed
  with err dr show ?thesis by (simp add: is_finite_def)
qed

lemma double_round_int:
  assumes "\<bar>k\<bar> < 2 ^ 33"
  shows "double_round (of_int k) = Finite (of_int k)"
proof (cases "k = 0")
  case True
  then show ?thesis by (simp add: double_round_def)
next
  case False
  define a :: rat where "a = \<bar>of_int k\<bar>"
  define u where "u = max (ilog2 a - 52) (- 1074)"
  have a: "0 < a" "a < 2 ^ 33" "a = of_int \<bar>k\<bar>"
    using False assms by (simp_all add: a_def flip: of_int_abs) 
  have "ilog2 a \<le> int 33 - 1" using a(1,2) by (rule ilog2_upper) simp
  then have u: "u \<le> 0" by (simp add: u_def)
  then have pu: "pow2 u = 1 / 2 ^ nat (- u)" by (simp add: pow2_def)
  have "a / pow2 u = of_int (\<bar>k\<bar> * 2 ^ nat (- u))"
    by (simp add: pu a(3))
  then have "round_half_even (a / pow2 u) = \<bar>k\<bar> * 2 ^ nat (- u)"
    by (simp only: round_half_even_of_int)
  then have v: "of_int (round_half_even (a / pow2 u)) * pow2 u = a"
    by (simp add: pu a(3))
  have "a < 2 ^ 1024" using a(2) by simp
  then have fin: "\<not> pow2 1024 \<le> a" by (simp add: pow2_def)
  have "double_round (of_int k) = Finite (if (of_int k :: rat) < 0 then - a else a)"
    using False fin a(1) v
    by (simp add: double_round_def Let_def flip: a_def u_def)
  then show ?thesis by (simp add: a_def)
qed

lemma micros_round:
  assumes "\<bar>fr - of_int r / 1000\<bar> \<le> pow2 (- 21)" "\<bar>r\<bar> < 1000"
  shows "(case double_round (fr * 1000000) of Finite p \<Rightarrow> round_half_even p | _ \<Rightarrow> 0)
         = r * 1000"
proof -
  define x where "x = fr * 1000000"
  define d where "d = double_round x"
  define R :: rat where "R = of_int r"
  have p21: "pow2 (- 21) = 1 / 2097152" by (simp add: pow2_def)
  have p34: "pow2 (- 34) = 1 / 17179869184" by (simp add: pow2_def)
  have fr: "R / 1000 - 1 / 2097152 \<le> fr" "fr \<le> R / 1000 + 1 / 2097152"
    using assms(1) unfolding p21 R_def by linarith+
  have e1: "R * 1000 - 1000000 / 2097152 \<le> x" "x \<le> R * 1000 + 1000000 / 2097152"
    using fr unfolding x_def by linarith+
  have "- 999 \<le> r" "r \<le> 999" using assms(2) by linarith+
  then have R: "- 999 \<le> R" "R \<le> 999" unfolding R_def by simp_all
  have "\<bar>x\<bar> < 2 ^ 20" using e1 R by (simp add: abs_less_iff) 
  then have "is_finite d \<and> \<bar>fval d - x\<bar> \<le> pow2 (int 20 - 54)"
    unfolding d_def by (rule double_round_near) simp_all
  then have fin: "is_finite d" and e2: "\<bar>fval d - x\<bar> \<le> 1 / 17179869184"
    by (simp_all add: p34)
  have "\<bar>fval d - R * 1000\<bar> < 1 / 2"
    using e1 e2 by linarith
  then have "\<bar>fval d - of_int (r * 1000)\<bar> < 1 / 2" by (simp add: R_def)
  then have "round_half_even (fval d) = r * 1000" by (rule round_half_even_near)
  moreover have "(case d of Finite p \<Rightarrow> round_half_even p | _ \<Rightarrow> 0) = round_half_even (fval d)"
    using fin by (cases d) (simp_all add: is_finite_def fval_def round_half_even_def)
  ultimately show ?thesis by (simp add: d_def x_def)
qed

lemma to_timeval_Finite:
  assumes "trunc w = t"
    and "(case double_round ((w - of_int t) * 1000000) of
            Finite p \<Rightarrow> round_half_even p | _ \<Rightarrow> 0) = us"
    and "\<bar>t\<bar> < 2 ^ 34"
  shows "to_timeval (Finite w) =
           Inr (if 1000000 \<le> us then (t + 1, us - 1000000)
                else if us < 0 then (t - 1, us + 1000000) else (t, us))"
proof -
  have "- (2 ^ 63) \<le> t - 1" "t + 1 < 2 ^ 63" using assms(3) by simp_all
  then show ?thesis
    using assms(1,2) by (simp add: to_timeval_def Let_def)
qed

lemma int_timeval:
  assumes "\<bar>ms\<bar> < 8589934592000"
  shows "truediv_1000 (JInt ms) = Inr (double_round (of_int ms / 1000))
         \<and> to_timeval (double_round (of_int ms / 1000)) = Inr (ms div 1000, ms mod 1000 * 1000)"
proof -
  define q :: rat where "q = of_int ms / 1000"
  define k where "k = ms div 1000"
  define m where "m = ms mod 1000"
  define d where "d = double_round q"
  define w where "w = fval d"
  have ms: "ms = k * 1000 + m" and m: "0 \<le> m" "m < 1000"
    by (simp_all add: k_def m_def)
  have k: "\<bar>k\<bar> \<le> 2 ^ 33" using assms ms m by simp
  have q: "q = of_int k + of_int m / 1000" by (simp add: q_def ms)
  have "\<bar>of_int ms :: rat\<bar> < 8589934592000"
    using assms by (metis of_int_abs of_int_less_iff of_int_numeral)
  then have "\<bar>q\<bar> < 2 ^ 33" by (simp add: q_def)
  then have "is_finite d \<and> \<bar>fval d - q\<bar> \<le> pow2 (int 33 - 54)"
    unfolding d_def by (rule double_round_near) simp_all
  then have fin: "is_finite d" and near: "\<bar>w - q\<bar> \<le> pow2 (- 21)"
    by (simp_all add: w_def)
  have p21: "pow2 (- 21) = 1 / 2097152" by (simp add: pow2_def)
  have div: "truediv_1000 (JInt ms) = Inr d"
    using fin by (cases d) (simp_all add: truediv_1000_def int_truediv_def is_finite_def d_def q_def)
  have "to_timeval d = Inr (k, m * 1000)"
  proof (cases "m = 0")
    case True
    then have "q = of_int k" by (simp add: q)
    moreover have "\<bar>k\<bar> < 2 ^ 33" using assms ms True by simp
    ultimately have dk: "d = Finite (of_int k)" by (simp add: d_def double_round_int)
    have "to_timeval (Finite (of_int k)) =
             Inr (if 1000000 \<le> (0::int) then (k + 1, 0 - 1000000)
                  else if (0::int) < 0 then (k - 1, 0 + 1000000) else (k, 0))"
      using k by (intro to_timeval_Finite) (simp_all add: trunc_def double_round_def round_half_even_def)
    with True dk show ?thesis by simp
  next
    case False
    with m have m1: "1 \<le> m" "m \<le> 999" by simp_all
    define K :: rat where "K = of_int k"
    define M :: rat where "M = of_int m"
    have M: "1 \<le> M" "M \<le> 999" using m1 by (simp_all add: M_def)
    have wq: "K + M / 1000 - 1 / 2097152 \<le> w" "w \<le> K + M / 1000 + 1 / 2097152"
      using near unfolding p21 q K_def M_def by linarith+
    have wk: "K < w" "w < K + 1" using wq M by linarith+
    have "w \<noteq> 0"
    proof
      assume "w = 0"
      with wk have "of_int k < (0::rat)" "(0::rat) < of_int (k + 1)" by (simp_all add: K_def)
      then have "k < 0" "0 < k + 1" by (simp_all only: of_int_less_0_iff of_int_0_less_iff)
      then show False by simp
    qed
    with fin have dw: "d = Finite w" by (cases d) (simp_all add: w_def fval_def is_finite_def)
    show ?thesis
    proof (cases "w < 0")
      case True
      with wk have "of_int k < (0::rat)" by (simp add: K_def)
      then have k0: "k < 0" by simp
      have "\<lceil>w\<rceil> = k + 1"
        using wk by (simp add: ceiling_eq_iff K_def)
      with True have t: "trunc w = k + 1" by (simp add: trunc_def)
      have "(w - of_int (k + 1)) - of_int (m - 1000) / 1000 = w - q"
        by (simp add: q diff_divide_distrib)
      with near have "\<bar>(w - of_int (k + 1)) - of_int (m - 1000) / 1000\<bar> \<le> pow2 (- 21)"
        by (simp only:)
      then have us: "(case double_round ((w - of_int (k + 1)) * 1000000) of
            Finite p \<Rightarrow> round_half_even p | _ \<Rightarrow> 0) = (m - 1000) * 1000"
        using m1 by (intro micros_round) simp_all
      have "to_timeval (Finite w) =
             Inr (if 1000000 \<le> (m - 1000) * 1000 then (k + 1 + 1, (m - 1000) * 1000 - 1000000)
                  else if (m - 1000) * 1000 < 0 then (k + 1 - 1, (m - 1000) * 1000 + 1000000)
                  else (k + 1, (m - 1000) * 1000))"
        using t us k k0 by (intro to_timeval_Finite) simp_all
      with m1 dw show ?thesis by simp
    next
      case False
      have "\<lfloor>w\<rfloor> = k"
        using wk by (simp add: floor_eq_iff K_def)
      with False have t: "trunc w = k" by (simp add: trunc_def)
      have "(w - of_int k) - of_int m / 1000 = w - q"
        by (simp add: q)
      with near have "\<bar>(w - of_int k) - of_int m / 1000\<bar> \<le> pow2 (- 21)"
        by (simp only:)
      then have us: "(case double_round ((w - of_int k) * 1000000) of
            Finite p \<Rightarrow> round_half_even p | _ \<Rightarrow> 0) = m * 1000"
        using m1 by (intro micros_round) simp_all
      have "to_timeval (Finite w) =
             Inr (if 1000000 \<le> m * 1000 then (k + 1, m * 1000 - 1000000)
                  else if m * 1000 < 0 then (k - 1, m * 1000 + 1000000)
                  else (k, m * 1000))"
        using t us k by (intro to_timeval_Finite) simp_all
      with m1 dw show ?thesis by simp
    qed
  qed
  with div show ?thesis by (simp add: d_def q_def k_def m_def)
qed

lemma ilog2_eval:
  assumes "2 ^ e \<le> a" "a < 2 ^ Suc e"
  shows "ilog2 a = int e"
proof -
  have one: "1 \<le> a" using assms(1) one_le_power [of "2::rat" e] by linarith
  have "(2::int) ^ e \<le> \<lfloor>a\<rfloor>"
    using assms(1) by (metis le_floor_iff of_int_numeral of_int_power)
  then have lo: "int (Suc e) \<le> bitlen \<lfloor>a\<rfloor>"
    by (simp add: bitlen_ge_iff_power nat_add_distrib)
  have "\<lfloor>a\<rfloor> < 2 ^ Suc e"
    using assms(2) by (metis floor_less_iff of_int_numeral of_int_power)
  then have "\<lfloor>a\<rfloor> < 2 ^ nat (int (Suc e))" by (simp only: nat_int)
  then have "bitlen \<lfloor>a\<rfloor> \<le> int (Suc e)"
    by (simp only: bitlen_le_iff_power) simp
  with lo one show ?thesis by (simp add: ilog2_def)
qed

lemma double_round_eval:
  assumes "2 ^ e \<le> q" "q < 2 ^ Suc e" "e < 1000"
    and "\<bar>q / pow2 (int e - 52) - of_int n\<bar> < 1 / 2"
  shows "double_round q = Finite (of_int n * pow2 (int e - 52))"
proof -
  have q: "0 < q" using assms(1) zero_less_power [of "2::rat" e] by linarith
  have i: "ilog2 q = int e" using assms(1,2) by (rule ilog2_eval)
  have aq: "\<bar>q\<bar> = q" using q by simp
  have u: "max (int e - 52) (- 1074) = int e - 52" by simp
  have r: "round_half_even (q / pow2 (int e - 52)) = n"
    using assms(4) by (rule round_half_even_near)
  have pu: "0 < pow2 (int e - 52)" by (rule pow2_pos)
  have "q / pow2 (int e - 52) - 1 / 2 < of_int n" using assms(4) by linarith
  moreover have "1 \<le> q / pow2 (int e - 52)"
  proof -
    have "pow2 (int e - 52) \<le> pow2 (int e)" by (rule pow2_mono) simp
    also have "\<dots> = 2 ^ e" by (simp add: pow2_def)
    finally show ?thesis using assms(1) pu by (simp add: pos_le_divide_eq)
  qed
  ultimately have n: "(0::rat) < of_int n" by linarith
  have "of_int n < q / pow2 (int e - 52) + 1 / 2" using assms(4) by linarith
  then have "of_int n * pow2 (int e - 52) < q + 1 / 2 * pow2 (int e - 52)"
    using pu by (simp add: pos_less_divide_eq [symmetric] algebra_simps add_divide_distrib)
  moreover have "pow2 (int e) = 2 ^ e" by (simp add: pow2_def)
  moreover have "pow2 (int e - 52) \<le> pow2 (int e)" by (rule pow2_mono) simp
  ultimately have "of_int n * pow2 (int e - 52) < q + 2 ^ e" using pu by linarith
  moreover have "(2::rat) ^ Suc e \<le> 2 ^ 1000" using assms(3) by (intro power_increasing) simp_all
  moreover have "(2::rat) ^ e \<le> 2 ^ 1000" using assms(3) by (intro power_increasing) simp_all
  ultimately have "of_int n * pow2 (int e - 52) < 2 ^ 1000 + 2 ^ 1000"
    using assms(2) by linarith
  then have fin: "\<not> pow2 1024 \<le> of_int n * pow2 (int e - 52)" by (simp add: pow2_def)
  have nz: "of_int n * pow2 (int e - 52) \<noteq> 0" using n pu by simp
  show ?thesis
    using q fin nz by (simp add: double_round_def Let_def aq i u r)
qed

subsection \<open>From an integer timestamp to the display\<close>

lemma dec_nat_times10: "0 < n \<Longrightarrow> dec_nat (n * 10) = dec_nat n @ [48]"
  by (subst dec_nat.simps) simp

lemma zpad_millis:
  assumes "m < 1000"
  shows "zpad 6 (m * 1000) = zpad 3 m @ [48, 48, 48]"
proof (cases "m = 0")
  case True
  then show ?thesis by (simp add: zpad_def dec_nat.simps eval_nat_numeral)
next
  case False
  then have a: "dec_nat (m * 10) = dec_nat m @ [48]" by (simp only: dec_nat_times10)
  have b: "dec_nat (m * 10 * 10) = dec_nat (m * 10) @ [48]"
    using False by (intro dec_nat_times10) simp
  have c: "dec_nat (m * 10 * 10 * 10) = dec_nat (m * 10 * 10) @ [48]"
    using False by (intro dec_nat_times10) simp
  have "m * 10 * 10 * 10 = m * 1000" by simp
  with a b c have "dec_nat (m * 1000) = dec_nat m @ [48, 48, 48]" by (simp only:) simp
  then show ?thesis by (simp add: zpad_def)
qed

lemma fromtimestamp_result:
  assumes "fromtimestamp rt f = Inr dt" "to_timeval f = Inr (t, us)"
  shows "local_datetime rt t us = Inr dt"
proof (cases "local_datetime rt t us")
  case (Inl e)
  with assms show ?thesis by (simp add: fromtimestamp_def)
next
  case (Inr r)
  with assms have "dt = r"
    by (simp add: fromtimestamp_def Let_def split: sum.splits if_splits)
  with Inr show ?thesis by simp
qed

lemma civil_year_bounds:
  assumes "- 100000 \<le> z0" "z0 \<le> 100000" "civil_from_days z0 = (y, m, d)"
  shows "1600 \<le> y \<and> y \<le> 2401"
proof -
  define z where "z = z0 + 719468"
  define era where "era = z div 146097"
  define doe where "doe = z mod 146097"
  define n where "n = doe - doe div 1460 + doe div 36524 - doe div 146096"
  define yoe where "yoe = n div 365"
  define doy where "doy = doe - (365 * yoe + yoe div 4 - yoe div 100)"
  define mp where "mp = (5 * doy + 2) div 153"
  define d' where "d' = doy - (153 * mp + 2) div 5 + 1"
  define m' where "m' = (if mp < 10 then mp + 3 else mp - 9)"
  have z: "619468 \<le> z" "z \<le> 819468" using assms(1,2) by (simp_all add: z_def)
  have "(619468::int) div 146097 \<le> z div 146097" using z(1) by (intro zdiv_mono1) simp_all
  moreover have "z div 146097 \<le> (819468::int) div 146097" using z(2) by (intro zdiv_mono1) simp_all
  ultimately have era: "4 \<le> era" "era \<le> 5" by (simp_all add: era_def)
  have doe: "0 \<le> doe" "doe < 146097" by (simp_all add: doe_def)
  have a: "0 \<le> doe div 1460" "1460 * (doe div 1460) \<le> doe"
    using doe(1) by (simp_all add: pos_imp_zdiv_nonneg_iff)
  have c: "0 \<le> doe div 146096" "146096 * (doe div 146096) \<le> doe"
    using doe(1) by (simp_all add: pos_imp_zdiv_nonneg_iff)
  have "doe div 36524 \<le> (146096::int) div 36524" using doe(2) by (intro zdiv_mono1) simp_all
  then have b: "0 \<le> doe div 36524" "doe div 36524 \<le> 4"
    using doe(1) by (simp_all add: pos_imp_zdiv_nonneg_iff)
  have n: "0 \<le> n" "n \<le> 146100" using a b c doe unfolding n_def by linarith+
  have "n div 365 \<le> (146100::int) div 365" using n(2) by (intro zdiv_mono1) simp_all
  then have yoe: "0 \<le> yoe" "yoe \<le> 400"
    using n(1) by (simp_all add: yoe_def pos_imp_zdiv_nonneg_iff)
  have "civil_from_days z0 = (yoe + era * 400 + (if m' \<le> 2 then 1 else 0), m', d')"
    unfolding civil_from_days_def Let_def m'_def d'_def mp_def doy_def yoe_def n_def doe_def
      era_def z_def
    by (rule refl)
  with assms(3) have "y = yoe + era * 400 + (if m' \<le> 2 then 1 else 0)" by auto
  then have "y = yoe + era * 400 \<or> y = yoe + era * 400 + 1" by (simp split: if_splits)
  with era yoe show ?thesis by linarith
qed

lemma local_datetime_ok:
  assumes "\<bar>t + utcoffset rt t\<bar> \<le> 8640000000"
  shows "\<exists>dt. local_datetime rt t us = Inr dt"
proof -
  define l where "l = t + utcoffset rt t"
  obtain y m d where c: "civil_from_days (l div 86400) = (y, m, d)"
    by (cases "civil_from_days (l div 86400)")
  have "- 100000 \<le> l div 86400" "l div 86400 \<le> 100000"
    using assms by (simp_all add: l_def)
  then have "1600 \<le> y \<and> y \<le> 2401" using c by (rule civil_year_bounds)
  then show ?thesis using c by (simp add: local_datetime_def Let_def l_def)
qed

lemma fromtimestamp_ok:
  assumes "to_timeval f = Inr (t, us)" "\<bar>t\<bar> \<le> 8589934592" "\<forall>x. \<bar>utcoffset rt x\<bar> \<le> 86400"
  shows "\<exists>dt. fromtimestamp rt f = Inr dt"
proof -
  have o: "\<bar>utcoffset rt x\<bar> \<le> 86400" for x using assms(3) by simp
  have "\<bar>t + utcoffset rt t\<bar> \<le> 8640000000" using assms(2) o [of t] by linarith
  then obtain r where r: "local_datetime rt t us = Inr r"
    using local_datetime_ok by blast
  have "\<bar>t - 86400 + utcoffset rt (t - 86400)\<bar> \<le> 8640000000"
    using assms(2) o [of "t - 86400"] by linarith
  then obtain p1 where p1: "local_datetime rt (t - 86400) us = Inr p1"
    using local_datetime_ok by blast
  define trans where "trans = utcoffset rt t - utcoffset rt (t - 86400)"
  have "\<bar>trans\<bar> \<le> 172800" using o [of t] o [of "t - 86400"] unfolding trans_def by linarith
  then have "\<bar>t + trans + utcoffset rt (t + trans)\<bar> \<le> 8640000000"
    using assms(2) o [of "t + trans"] by linarith
  then obtain p2 where p2: "local_datetime rt (t + trans) us = Inr p2"
    using local_datetime_ok by blast
  show ?thesis
    using assms(1) r p1 p2 by (simp add: fromtimestamp_def Let_def flip: trans_def)
qed

lemma dec_nat_nonempty: "dec_nat n \<noteq> []"
  by (subst dec_nat.simps) simp

lemma dec_nat_length4:
  assumes "1000 \<le> n"
  shows "4 \<le> length (dec_nat n)"
proof -
  have n: "\<not> n < 10" "\<not> n div 10 < 10" "\<not> n div 10 div 10 < 10"
    using assms by linarith+
  have a: "dec_nat n = dec_nat (n div 10) @ [48 + n mod 10]"
    using n(1) by (subst dec_nat.simps) simp
  have b: "dec_nat (n div 10) = dec_nat (n div 10 div 10) @ [48 + n div 10 mod 10]"
    using n(2) by (subst dec_nat.simps) simp
  have c: "dec_nat (n div 10 div 10)
           = dec_nat (n div 10 div 10 div 10) @ [48 + n div 10 div 10 mod 10]"
    using n(3) by (subst dec_nat.simps) simp
  have "1 \<le> length (dec_nat (n div 10 div 10 div 10))"
    using dec_nat_nonempty [of "n div 10 div 10 div 10"]
    by (cases "dec_nat (n div 10 div 10 div 10)") simp_all
  then show ?thesis by (simp add: a b c)
qed

lemma year_str_wide: "1000 \<le> y \<Longrightarrow> year_str rt y = zpad 4 (nat y)"
  using dec_nat_length4 [of "nat y"] by (simp add: year_str_def zpad_def)

lemma local_datetime_strftime:
  assumes "local_datetime rt t us = Inr dt" "\<bar>t + utcoffset rt t\<bar> \<le> 8640000000"
  shows "strftime rt dt = wall_clock rt t @ ustr ''.'' @ zpad 6 (nat us)"
proof -
  obtain y mo d where c: "civil_from_days ((t + utcoffset rt t) div 86400) = (y, mo, d)"
    by (cases "civil_from_days ((t + utcoffset rt t) div 86400)")
  have "- 100000 \<le> (t + utcoffset rt t) div 86400" "(t + utcoffset rt t) div 86400 \<le> 100000"
    using assms(2) by simp_all
  then have "1600 \<le> y \<and> y \<le> 2401" using c by (rule civil_year_bounds)
  then have y: "year_str rt y = zpad 4 (nat y)" by (simp add: year_str_wide)
  from assms(1) c have "dt = \<lparr>year = y, month = mo, day = d,
      hour = (t + utcoffset rt t) mod 86400 div 3600,
      minute = (t + utcoffset rt t) mod 86400 mod 3600 div 60,
      second = (t + utcoffset rt t) mod 86400 mod 60, microsecond = us\<rparr>"
    by (simp add: local_datetime_def Let_def split: if_splits)
  then show ?thesis by (simp add: strftime_def wall_clock_def Let_def c y)
qed

lemma take_drop3: "take (length (xs @ [a, b, c]) - 3) (xs @ [a, b, c]) = xs"
  by simp

lemma format_timestamp_int_total:
  assumes "\<bar>ms\<bar> < 8589934592000" "\<forall>x. \<bar>utcoffset rt x\<bar> \<le> 86400"
  shows "format_timestamp rt (JInt ms) = Inr (spec_display rt ms)"
proof -
  define d where "d = double_round (of_int ms / 1000)"
  have tv: "truediv_1000 (JInt ms) = Inr d" "to_timeval d = Inr (ms div 1000, ms mod 1000 * 1000)"
    using int_timeval [OF assms(1)] by (simp_all add: d_def)
  have k: "\<bar>ms div 1000\<bar> \<le> 8589934592" using assms(1) by linarith
  with tv(2) assms(2) obtain dt where dt: "fromtimestamp rt d = Inr dt"
    using fromtimestamp_ok by blast
  have l: "local_datetime rt (ms div 1000) (ms mod 1000 * 1000) = Inr dt"
    using dt tv(2) by (rule fromtimestamp_result)
  have o: "\<bar>utcoffset rt (ms div 1000)\<bar> \<le> 86400" using assms(2) by simp
  have b: "\<bar>ms div 1000 + utcoffset rt (ms div 1000)\<bar> \<le> 8640000000"
    using k o by linarith
  have m: "nat (ms mod 1000 * 1000) = nat (ms mod 1000) * 1000" "nat (ms mod 1000) < 1000"
    by (simp_all add: nat_mult_distrib)
  have z: "zpad 6 (nat (ms mod 1000 * 1000)) = zpad 3 (nat (ms mod 1000)) @ [48, 48, 48]"
    using m zpad_millis by simp
  have "strftime rt dt
        = (wall_clock rt (ms div 1000) @ ustr ''.'' @ zpad 3 (nat (ms mod 1000))) @ [48, 48, 48]"
    by (simp add: local_datetime_strftime [OF l b] z)
  then have "take (length (strftime rt dt) - 3) (strftime rt dt) = spec_display rt ms"
    unfolding spec_display_def by (simp only: take_drop3)
  with tv(1) dt show ?thesis by (simp add: format_timestamp_def)
qed

subsection \<open>A far timestamp, evaluated\<close>

lemma far_div: "double_round (8589934592123 / 1000) = Finite (4503599627434983 / 524288)"
proof -
  have p: "pow2 (- 19) = 1 / 524288" by (simp add: pow2_def)
  have "double_round (8589934592123 / 1000)
        = Finite (of_int 4503599627434983 * pow2 (int 33 - 52))"
    by (rule double_round_eval) (simp_all add: p)
  then show ?thesis by (simp add: p)
qed

lemma far_us: "to_timeval (Finite (4503599627434983 / 524288)) = Inr (8589934592, 122999)"
proof -
  have f: "\<lfloor>(4503599627434983::rat) / 524288\<rfloor> = 8589934592" by (simp add: floor_eq_iff)
  have t: "trunc (4503599627434983 / 524288) = 8589934592" by (simp add: trunc_def f)
  have fr: "(4503599627434983 / 524288 - 8589934592) * 1000000 = (1007609375 / 8192 :: rat)"
    by simp
  have p: "pow2 (- 36) = 1 / 68719476736" by (simp add: pow2_def)
  have "double_round (1007609375 / 8192)
        = Finite (of_int 8452440064000000 * pow2 (int 16 - 52))"
    by (rule double_round_eval) (simp_all add: p)
  then have d: "double_round (1007609375 / 8192) = Finite (1007609375 / 8192)"
    by (simp add: p)
  have r2: "round_half_even (1007609375 / 8192) = 122999"
    by (rule round_half_even_near) simp
  have "to_timeval (Finite (4503599627434983 / 524288)) =
          Inr (if 1000000 \<le> (122999::int) then (8589934592 + 1, 122999 - 1000000)
               else if (122999::int) < 0 then (8589934592 - 1, 122999 + 1000000)
               else (8589934592, 122999))"
    by (rule to_timeval_Finite) (simp_all add: t fr d r2)
  then show ?thesis by simp
qed

lemma far_display:
  "format_timestamp example_runtime (JInt 8589934592123) = Inr (ustr ''2242-03-16 12:56:32.122'')"
proof -
  have d: "truediv_1000 (JInt 8589934592123) = Inr (Finite (4503599627434983 / 524288))"
    by (simp add: truediv_1000_def int_truediv_def far_div)
  have l: "local_datetime example_runtime 8589934592 122999 =
      Inr \<lparr>year = 2242, month = 3, day = 16, hour = 12, minute = 56, second = 32,
           microsecond = 122999\<rparr>"
    by code_simp
  have l2: "local_datetime example_runtime (8589934592 - 86400) 122999 =
      Inr \<lparr>year = 2242, month = 3, day = 15, hour = 12, minute = 56, second = 32,
           microsecond = 122999\<rparr>"
    by code_simp
  have f: "fromtimestamp example_runtime (Finite (4503599627434983 / 524288)) =
      Inr \<lparr>year = 2242, month = 3, day = 16, hour = 12, minute = 56, second = 32,
           microsecond = 122999\<rparr>"
    using l l2 by (simp add: fromtimestamp_def far_us) (simp add: example_runtime_def)
  have s: "strftime example_runtime
             \<lparr>year = 2242, month = 3, day = 16, hour = 12, minute = 56, second = 32,
              microsecond = 122999\<rparr> = ustr ''2242-03-16 12:56:32.122999''"
    by (simp add: strftime_def year_str_def example_runtime_def zpad_def dec_nat.simps ustr_def)
  show ?thesis
    by (simp add: format_timestamp_def d f s) (simp add: ustr_def)
qed

subsection \<open>Line breaks\<close>

lemma dec_nat_digits: "set (dec_nat n) \<subseteq> {48..57}"
proof (induction n rule: dec_nat.induct)
  case (1 n)
  show ?case
  proof (cases "n < 10")
    case True
    then show ?thesis by (simp add: dec_nat.simps [of n])
  next
    case False
    have "n mod 10 < 10" by simp
    then have "48 + n mod 10 \<in> {48..57}" by auto
    with 1 False show ?thesis by (simp add: dec_nat.simps [of n])
  qed
qed

lemma dec_nat_no_newline: "10 \<notin> set (dec_nat n)"
  using dec_nat_digits [of n] by auto

lemma dec_int_no_newline: "10 \<notin> set (dec_int i)"
  by (simp add: dec_int_def dec_nat_no_newline)

lemma zpad_no_newline: "10 \<notin> set (zpad w n)"
  by (simp add: zpad_def dec_nat_no_newline)

lemma hex_digit_no_newline: "hex_digit d \<noteq> 10"
  by (simp add: hex_digit_def)

lemma u_escape_no_newline: "10 \<notin> set (u_escape n)"
  by (simp add: u_escape_def hex_digit_def)

lemma escape_char_no_newline: "10 \<notin> set (escape_char c)"
  by (simp add: escape_char_def u_escape_no_newline)

lemma encode_str_no_newline: "10 \<notin> set (encode_str s)"
  by (induction s) (auto simp: encode_str_def escape_char_no_newline)

lemma join_no_newline:
  "10 \<notin> set sep \<Longrightarrow> \<forall>x\<in>set xs. 10 \<notin> set x \<Longrightarrow> 10 \<notin> set (join sep xs)"
  by (induction sep xs rule: join.induct) auto

lemma json_dumps_no_newline:
  assumes "\<And>f. 10 \<notin> set (float_repr rt f)"
  shows "10 \<notin> set (json_dumps rt v)"
proof (induction v)
  case (JFloat f)
  then show ?case using assms by (cases f) (simp_all add: ustr_def)
next
  case (JArr xs)
  then have "10 \<notin> set (join (ustr '', '') (map (json_dumps rt) xs))"
    by (intro join_no_newline) (simp_all add: ustr_def)
  then show ?case by simp
next
  case (JObj kvs)
  have "10 \<notin> set (encode_str (fst kv) @ ustr '': '' @ json_dumps rt (snd kv))"
    if "kv \<in> set kvs" for kv
  proof -
    have "snd kv \<in> Basic_BNFs.snds kv" by (cases kv) simp
    with JObj that have "10 \<notin> set (json_dumps rt (snd kv))" by blast
    then show ?thesis by (simp add: encode_str_no_newline ustr_def)
  qed
  then have "10 \<notin> set (join (ustr '', '')
      (map (\<lambda>kv. encode_str (fst kv) @ ustr '': '' @ json_dumps rt (snd kv)) kvs))"
    by (intro join_no_newline) (simp_all add: ustr_def)
  then show ?case by simp
qed (simp_all add: ustr_def dec_int_no_newline encode_str_no_newline)

subsection \<open>The handler, step by step\<close>

lemma newlines_append: "newlines (a @ b) = newlines a + newlines b"
  by (simp add: newlines_def)

lemma newlines_none: "10 \<notin> set s \<Longrightarrow> newlines s = 0"
  by (induction s) (auto simp: newlines_def)

lemma format_timestamp_no_newline:
  assumes "format_timestamp rt v = Inr ts"
  shows "10 \<notin> set ts"
proof -
  from assms obtain dt where "ts = take (length (strftime rt dt) - 3) (strftime rt dt)"
    by (auto simp: format_timestamp_def split: sum.splits)
  moreover have "10 \<notin> set (strftime rt dt)"
    by (simp add: strftime_def year_str_def zpad_no_newline dec_nat_no_newline ustr_def)
  ultimately show ?thesis by (auto dest: in_set_takeD)
qed

lemma log_line_Inr:
  assumes "log_line rt entry = Inr line"
  obtains kvs ts where "entry = JObj kvs"
    and "format_timestamp rt (dict_get kvs (ustr ''timestamp'') (JInt 0)) = Inr ts"
    and "line = ustr ''['' @ ts @ ustr ''] [''
                @ py_str rt (dict_get kvs (ustr ''type'') (JStr (ustr ''UNKNOWN'')))
                @ ustr ''] '' @ json_dumps rt entry @ [10]"
  using assms by (auto simp: log_line_def Let_def split: json.splits sum.splits)

lemma try_body_accept:
  assumes "json_loads rt d = Inr entry" "log_line rt entry = Inr line"
    and "\<not> list_ex is_surrogate line" "\<not> append_fails s"
  shows "try_body rt d s = (None, s\<lparr>files := (files s)(log_file s \<mapsto> log_text s @ line)\<rparr>)"
  using assms by (simp add: try_body_def append_line_def log_text_def Let_def)

lemma try_body_reject:
  assumes "json_loads rt d = Inl e \<or> (\<exists>entry. json_loads rt d = Inr entry \<and> log_line rt entry = Inl e)"
  shows "try_body rt d s = (Some e, s)"
  using assms by (auto simp: try_body_def)

lemma handle_POST_accept:
  assumes "command req = ''POST''" "path req = ''/log''"
    and "get_header (headers req) ''Content-Length'' = Some v" "py_int rt v = Inr n"
    and "rfile_read n (rfile req) = Inr d"
    and "json_loads rt d = Inr entry" "log_line rt entry = Inr line"
    and "\<not> list_ex is_surrogate line" "\<not> append_fails s"
  shows "handle_one_request rt req s =
           (Reply \<lparr>status = 200,
                   resp_headers =
                     [(''Server'', version_string rt),
                      (''Date'', date_time_string rt (arrival req)),
                      (''Access-Control-Allow-Origin'', ''*''),
                      (''Content-Type'', ''application/json'')],
                   body = status_ok\<rparr>,
            s\<lparr>files := (files s)(log_file s \<mapsto> log_text s @ line)\<rparr>)"
  using assms(1-5) try_body_accept [OF assms(6-9)]
  by (simp add: handle_one_request_def do_POST_def Let_def send_header_def send_response_def
      wfile_write_def)

lemma handle_POST_reject:
  assumes "command req = ''POST''" "path req = ''/log''"
    and "get_header (headers req) ''Content-Length'' = Some v" "py_int rt v = Inr n"
    and "rfile_read n (rfile req) = Inr d"
    and "json_loads rt d = Inl e
         \<or> (\<exists>entry. json_loads rt d = Inr entry \<and> log_line rt entry = Inl e)"
  shows "handle_one_request rt req s =
           (Reply \<lparr>status = 500,
                   resp_headers =
                     [(''Server'', version_string rt),
                      (''Date'', date_time_string rt (arrival req))],
                   body = []\<rparr>,
            s\<lparr>console := console s @ [ErrorProcessing e]\<rparr>)"
  using assms(1-5) try_body_reject [OF assms(6), of s]
  by (simp add: handle_one_request_def do_POST_def Let_def send_response_def)

subsection \<open>The calendar and the display, evaluated for the examples\<close>

lemma civil_19675: "civil_from_days 19675 = (2023, 11, 14)"
  by code_simp

lemma civil_99420: "civil_from_days 99420 = (2242, 3, 16)"
  by code_simp

lemma civil_0: "civil_from_days 0 = (1970, 1, 1)"
  by code_simp

lemma example_utc: "\<forall>x. \<bar>utcoffset example_runtime x\<bar> \<le> 86400"
  by (simp add: example_runtime_def)

lemma wall_clock_eval:
  assumes "utcoffset rt t = off" "civil_from_days ((t + off) div 86400) = (y, mo, d)"
  shows "wall_clock rt t =
           zpad 4 (nat y) @ ustr ''-'' @ zpad 2 (nat mo) @ ustr ''-'' @ zpad 2 (nat d)
           @ ustr '' '' @ zpad 2 (nat ((t + off) mod 86400 div 3600)) @ ustr '':''
           @ zpad 2 (nat ((t + off) mod 86400 mod 3600 div 60)) @ ustr '':''
           @ zpad 2 (nat ((t + off) mod 86400 mod 60))"
  using assms by (simp add: wall_clock_def Let_def)

lemma example_offset: "utcoffset example_runtime t = 0"
  by (simp add: example_runtime_def)

lemma replicate_2: "replicate 2 x = [x, x]"
  by (simp add: numeral_2_eq_2)

lemma wall_clock_hello: "wall_clock example_runtime 1700000000 = ustr ''2023-11-14 22:13:20''"
proof -
  have "wall_clock example_runtime 1700000000 =
          zpad 4 (nat 2023) @ ustr ''-'' @ zpad 2 (nat 11) @ ustr ''-'' @ zpad 2 (nat 14)
          @ ustr '' '' @ zpad 2 (nat ((1700000000 + 0) mod 86400 div 3600)) @ ustr '':''
          @ zpad 2 (nat ((1700000000 + 0) mod 86400 mod 3600 div 60)) @ ustr '':''
          @ zpad 2 (nat ((1700000000 + 0) mod 86400 mod 60))"
    by (rule wall_clock_eval [OF example_offset]) (simp add: civil_19675)
  also have "\<dots> = zpad 4 2023 @ ustr ''-'' @ zpad 2 11 @ ustr ''-'' @ zpad 2 14
          @ ustr '' '' @ zpad 2 22 @ ustr '':'' @ zpad 2 13 @ ustr '':'' @ zpad 2 20"
    by simp
  also have "\<dots> = ustr ''2023-11-14 22:13:20''"
    by (simp add: zpad_def dec_nat.simps ustr_def)
  finally show ?thesis .
qed

lemma display_hello:
  "spec_display example_runtime 1700000000000 = ustr ''2023-11-14 22:13:20.000''"
proof -
  have "zpad 3 (nat (1700000000000 mod 1000)) = ustr ''000''"
    by (simp add: zpad_def dec_nat.simps ustr_def replicate_2)
  then show ?thesis
    by (simp add: spec_display_def wall_clock_hello) (simp add: ustr_def)
qed


lemma wall_clock_epoch: "wall_clock example_runtime 0 = ustr ''1970-01-01 00:00:00''"
proof -
  have "wall_clock example_runtime 0 =
          zpad 4 (nat 1970) @ ustr ''-'' @ zpad 2 (nat 1) @ ustr ''-'' @ zpad 2 (nat 1)
          @ ustr '' '' @ zpad 2 (nat ((0 + 0) mod 86400 div 3600)) @ ustr '':''
          @ zpad 2 (nat ((0 + 0) mod 86400 mod 3600 div 60)) @ ustr '':''
          @ zpad 2 (nat ((0 + 0) mod 86400 mod 60))"
    by (rule wall_clock_eval [OF example_offset]) (simp add: civil_0)
  also have "\<dots> = zpad 4 1970 @ ustr ''-'' @ zpad 2 1 @ ustr ''-'' @ zpad 2 1
          @ ustr '' '' @ zpad 2 0 @ ustr '':'' @ zpad 2 0 @ ustr '':'' @ zpad 2 0"
    by simp
  also have "\<dots> = ustr ''1970-01-01 00:00:00''"
    by (simp add: zpad_def dec_nat.simps ustr_def)
  finally show ?thesis .
qed

lemma display_epoch: "spec_display example_runtime 0 = ustr ''1970-01-01 00:00:00.000''"
proof -
  have "zpad 3 (nat (0 mod 1000)) = ustr ''000''"
    by (simp add: zpad_def dec_nat.simps ustr_def replicate_2)
  then show ?thesis
    by (simp add: spec_display_def wall_clock_epoch) (simp add: ustr_def)
qed

lemma wall_clock_far: "wall_clock example_runtime 8589934592 = ustr ''2242-03-16 12:56:32''"
proof -
  have "wall_clock example_runtime 8589934592 =
          zpad 4 (nat 2242) @ ustr ''-'' @ zpad 2 (nat 3) @ ustr ''-'' @ zpad 2 (nat 16)
          @ ustr '' '' @ zpad 2 (nat ((8589934592 + 0) mod 86400 div 3600)) @ ustr '':''
          @ zpad 2 (nat ((8589934592 + 0) mod 86400 mod 3600 div 60)) @ ustr '':''
          @ zpad 2 (nat ((8589934592 + 0) mod 86400 mod 60))"
    by (rule wall_clock_eval [OF example_offset]) (simp add: civil_99420)
  also have "\<dots> = zpad 4 2242 @ ustr ''-'' @ zpad 2 3 @ ustr ''-'' @ zpad 2 16
          @ ustr '' '' @ zpad 2 12 @ ustr '':'' @ zpad 2 56 @ ustr '':'' @ zpad 2 32"
    by simp
  also have "\<dots> = ustr ''2242-03-16 12:56:32''"
    by (simp add: zpad_def dec_nat.simps ustr_def)
  finally show ?thesis .
qed

lemma display_far:
  "spec_display example_runtime 8589934592123 = ustr ''2242-03-16 12:56:32.123''"
proof -
  have "zpad 3 (nat (8589934592123 mod 1000)) = ustr ''123''"
    by (simp add: zpad_def dec_nat.simps ustr_def)
  then show ?thesis
    by (simp add: spec_display_def wall_clock_far) (simp add: ustr_def)
qed

lemma log_line_eval:
  assumes "format_timestamp rt (dict_get kvs (ustr ''timestamp'') (JInt 0)) = Inr ts"
    and "py_str rt (dict_get kvs (ustr ''type'') (JStr (ustr ''UNKNOWN''))) = ty"
  shows "log_line rt (JObj kvs) =
           Inr (ustr ''['' @ ts @ ustr ''] ['' @ ty @ ustr ''] '' @ json_dumps rt (JObj kvs)
                @ [10])"
  using assms by (simp add: log_line_def del: json_dumps.simps)

lemma hello_timestamp:
  "dict_get [(ustr ''timestamp'', JInt 1700000000000),
             (ustr ''type'', JStr (ustr ''INFO'')),
             (ustr ''msg'', JStr (ustr ''hello''))] (ustr ''timestamp'') (JInt 0)
   = JInt 1700000000000"
  by (simp add: dict_get_def)

lemma hello_type:
  "py_str rt (dict_get [(ustr ''timestamp'', JInt 1700000000000),
             (ustr ''type'', JStr (ustr ''INFO'')),
             (ustr ''msg'', JStr (ustr ''hello''))] (ustr ''type'') (JStr (ustr ''UNKNOWN'')))
   = ustr ''INFO''"
  by (simp add: dict_get_def py_str_def ustr_def)

lemma line_hello:
  "log_line example_runtime entry_hello =
     Inr (ustr ''[2023-11-14 22:13:20.000] [INFO] '' @ json_dumps example_runtime entry_hello
          @ [10])"
proof -
  have "format_timestamp example_runtime (JInt 1700000000000)
        = Inr (spec_display example_runtime 1700000000000)"
    using example_utc by (intro format_timestamp_int_total) simp_all
  then have "format_timestamp example_runtime (JInt 1700000000000)
        = Inr (ustr ''2023-11-14 22:13:20.000'')"
    by (simp only: display_hello)
  then have "log_line example_runtime entry_hello =
     Inr (ustr ''['' @ ustr ''2023-11-14 22:13:20.000'' @ ustr ''] ['' @ ustr ''INFO'' @ ustr ''] ''
          @ json_dumps example_runtime entry_hello @ [10])"
    unfolding entry_hello_def
    by (intro log_line_eval) (simp_all only: hello_timestamp hello_type)
  then show ?thesis by (simp add: ustr_def del: json_dumps.simps)
qed

subsection \<open>The display timestamp\<close>

text \<open>
  C4, amended. For every event whose \<^verbatim>\<open>timestamp\<close> is an integer \<open>ms\<close> (or absent,
  which counts as 0) with \<open>\<bar>ms\<bar> < 2\<^sup>3\<^sup>3 * 1000\<close>, in a time zone whose offsets from UTC stay
  within a day, the line is formed and starts with the display timestamp of the claim: epoch milliseconds \<open>ms\<close>, as local wall-clock time,
  rendered \<^verbatim>\<open>YYYY-MM-DD HH:MM:SS.mmm\<close> with \<open>mmm = ms mod 1000\<close>. In particular a
  timestamp of 0 renders as the epoch instant in local time with fractional part
  \<^verbatim>\<open>.000\<close>. (The code divides by 1000 in floating point and rounds that quotient to
  microseconds before cutting three digits; the bound is where this is still exact.)
\<close>

theorem display_timestamp_integer:
  assumes "dict_get kvs (ustr ''timestamp'') (JInt 0) = JInt ms"
    and "\<bar>ms\<bar> < 8589934592000"
    and "\<forall>x. \<bar>utcoffset rt x\<bar> \<le> 86400"
  shows "log_line rt (JObj kvs) =
           Inr (ustr ''['' @ spec_display rt ms @ ustr ''] [''
                @ py_str rt (dict_get kvs (ustr ''type'') (JStr (ustr ''UNKNOWN'')))
                @ ustr ''] '' @ json_dumps rt (JObj kvs) @ [10])
         \<and> spec_display rt 0 = wall_clock rt 0 @ ustr ''.000''"
proof -
  have "format_timestamp rt (JInt ms) = Inr (spec_display rt ms)"
    using assms(2,3) by (rule format_timestamp_int_total)
  then have "format_timestamp rt (dict_get kvs (ustr ''timestamp'') (JInt 0))
             = Inr (spec_display rt ms)"
    by (simp only: assms(1))
  then have "log_line rt (JObj kvs) =
           Inr (ustr ''['' @ spec_display rt ms @ ustr ''] [''
                @ py_str rt (dict_get kvs (ustr ''type'') (JStr (ustr ''UNKNOWN'')))
                @ ustr ''] '' @ json_dumps rt (JObj kvs) @ [10])"
    by (rule log_line_eval) simp
  moreover have "spec_display rt 0 = wall_clock rt 0 @ ustr ''.000''"
    by (simp add: spec_display_def zpad_def dec_nat.simps ustr_def replicate_2)
  ultimately show ?thesis by (simp only: simp_thms)
qed

theorem display_timestamp_integer_witness:
  "dict_get [(ustr ''timestamp'', JInt 1700000000000),
             (ustr ''type'', JStr (ustr ''INFO'')),
             (ustr ''msg'', JStr (ustr ''hello''))] (ustr ''timestamp'') (JInt 0)
     = JInt 1700000000000
   \<and> \<bar>1700000000000 :: int\<bar> < 8589934592000
   \<and> (\<forall>x. \<bar>utcoffset example_runtime x\<bar> \<le> 86400)
   \<and> log_line example_runtime entry_hello =
       Inr (ustr ''['' @ ustr ''2023-11-14 22:13:20.000'' @ ustr ''] ['' @ ustr ''INFO''
            @ ustr ''] '' @ json_dumps example_runtime entry_hello @ [10])"
proof -
  have b: "\<bar>1700000000000 :: int\<bar> < 8589934592000" by simp
  show ?thesis
    using hello_timestamp b example_utc
      display_timestamp_integer [OF hello_timestamp b example_utc]
    by (simp only: hello_type entry_hello_def display_hello simp_thms)
qed

text \<open>
  C4 as stated fails for a timestamp far in the future: 8589934592123 ms is
  2242-03-16 12:56:32.123 UTC, and the code displays \<^verbatim>\<open>.122\<close>. The float nearest to
  8589934592.123 lies below it, at a distance of more than half a microsecond.
\<close>

theorem far_timestamp_counterexample:
  "format_timestamp example_runtime (JInt 8589934592123) = Inr (ustr ''2242-03-16 12:56:32.122'')
   \<and> spec_display example_runtime 8589934592123 = ustr ''2242-03-16 12:56:32.123''"
  using far_display display_far by simp

subsection \<open>Accepted events\<close>

lemma rfile_read_all: "rfile_read (int (length d)) d = Inr d"
  by (simp add: rfile_read_def)

lemma example_header: "get_header (headers (example_post len b)) ''Content-Length'' = Some len"
  by (simp add: get_header_def example_post_def lower_char_def)

lemma example_post_fields:
  "command (example_post len b) = ''POST''" "path (example_post len b) = ''/log''"
  "rfile (example_post len b) = b" "arrival (example_post len b) = 1700000000"
  by (simp_all add: example_post_def)

lemma example_server_fields:
  "\<not> append_fails example_server" "files example_server = Map.empty"
  "console example_server = []"
  by (simp_all add: example_server_def run_server_def)

lemma py_int_55: "py_int example_runtime ''55'' = Inr 55"
  by (simp add: py_int_def example_runtime_def is_space_def is_digit_def digits_value_def)

lemma py_int_6: "py_int example_runtime ''6'' = Inr 6"
  by (simp add: py_int_def example_runtime_def is_space_def is_digit_def digits_value_def)

lemma length_body_hello: "length body_hello = 55"
  by (simp add: body_hello_def dq_def)

lemma loads_hello: "json_loads example_runtime body_hello = Inr entry_hello"
  by (simp add: example_runtime_def example_loads_def)

lemma loads_array: "json_loads example_runtime ''[1, 2]'' = Inr (JArr [JInt 1, JInt 2])"
  by (simp add: example_runtime_def example_loads_def body_hello_def dq_def)

lemma surrogate_free_hello:
  "\<not> list_ex is_surrogate
       (ustr ''[2023-11-14 22:13:20.000] [INFO] '' @ json_dumps example_runtime entry_hello @ [10])"
  by (simp add: entry_hello_def ustr_def is_surrogate_def encode_str_def escape_char_def
      dec_int_def dec_nat.simps)

lemma log_line_single:
  assumes "log_line rt (JObj kvs) = Inr line"
    and "\<forall>f. 10 \<notin> set (float_repr rt f)"
    and "10 \<notin> set (py_str rt (dict_get kvs (ustr ''type'') (JStr (ustr ''UNKNOWN''))))"
  shows "newlines line = 1"
proof -
  from assms(1) obtain ts where
    ts: "format_timestamp rt (dict_get kvs (ustr ''timestamp'') (JInt 0)) = Inr ts"
    and line: "line = ustr ''['' @ ts @ ustr ''] [''
                @ py_str rt (dict_get kvs (ustr ''type'') (JStr (ustr ''UNKNOWN'')))
                @ ustr ''] '' @ json_dumps rt (JObj kvs) @ [10]"
    by (auto elim: log_line_Inr)
  have "10 \<notin> set ts" using ts by (rule format_timestamp_no_newline)
  then have n1: "newlines ts = 0" by (rule newlines_none)
  have n2: "newlines (py_str rt (dict_get kvs (ustr ''type'') (JStr (ustr ''UNKNOWN'')))) = 0"
    using assms(3) by (rule newlines_none)
  have "10 \<notin> set (json_dumps rt (JObj kvs))"
    using assms(2) by (intro json_dumps_no_newline) simp
  then have n3: "newlines (json_dumps rt (JObj kvs)) = 0" by (rule newlines_none)
  have n4: "newlines (ustr ''['') = 0" "newlines (ustr ''] ['') = 0" "newlines (ustr ''] '') = 0"
    "newlines [10] = 1"
    by (simp_all add: newlines_def ustr_def)
  show ?thesis
    unfolding line by (simp only: newlines_append n1 n2 n3 n4)
qed

text \<open>
  C1, amended. For every POST to \<^verbatim>\<open>/log\<close> with a correct \<^verbatim>\<open>Content-Length\<close> header
  whose body is valid JSON from which the handler can format a line (a JSON object whose
  \<^verbatim>\<open>timestamp\<close>, 0 if absent, is a number that \<^verbatim>\<open>datetime\<close> can render), the line
  having no surrogate code point, and while the file can be appended to: the server
  responds 200 with body \<^verbatim>\<open>{"status":"ok"}\<close> and the headers
  \<^verbatim>\<open>Access-Control-Allow-Origin: *\<close> and \<^verbatim>\<open>Content-Type: application/json\<close> (after
  \<^verbatim>\<open>Server\<close> and \<^verbatim>\<open>Date\<close>), and the log file gains exactly one record, which ends
  with the \<^verbatim>\<open>json.dumps\<close> re-serialization of the body and a newline. The record is
  exactly one line when the type label contains no line break.
\<close>

theorem post_accepted:
  assumes "command req = ''POST''" "path req = ''/log''"
    and "get_header (headers req) ''Content-Length'' = Some v"
    and "py_int rt v = Inr (int (length (rfile req)))"
    and "json_loads rt (rfile req) = Inr entry"
    and "log_line rt entry = Inr line"
    and "\<not> list_ex is_surrogate line" "\<not> append_fails s"
  shows "handle_one_request rt req s =
           (Reply \<lparr>status = 200,
                   resp_headers =
                     [(''Server'', version_string rt),
                      (''Date'', date_time_string rt (arrival req)),
                      (''Access-Control-Allow-Origin'', ''*''),
                      (''Content-Type'', ''application/json'')],
                   body = status_ok\<rparr>,
            s\<lparr>files := (files s)(log_file s \<mapsto> log_text s @ line)\<rparr>)
         \<and> (\<exists>pre. line = pre @ json_dumps rt entry @ [10])
         \<and> (\<forall>kvs. entry = JObj kvs
                \<and> (\<forall>f. 10 \<notin> set (float_repr rt f))
                \<and> 10 \<notin> set (py_str rt (dict_get kvs (ustr ''type'') (JStr (ustr ''UNKNOWN''))))
              \<longrightarrow> newlines line = 1)"
proof (intro conjI allI impI)
  show "handle_one_request rt req s =
           (Reply \<lparr>status = 200,
                   resp_headers =
                     [(''Server'', version_string rt),
                      (''Date'', date_time_string rt (arrival req)),
                      (''Access-Control-Allow-Origin'', ''*''),
                      (''Content-Type'', ''application/json'')],
                   body = status_ok\<rparr>,
            s\<lparr>files := (files s)(log_file s \<mapsto> log_text s @ line)\<rparr>)"
    using assms(1-4) rfile_read_all assms(5-8) by (rule handle_POST_accept)
  show "\<exists>pre. line = pre @ json_dumps rt entry @ [10]"
    using assms(6) by (elim log_line_Inr) (simp del: json_dumps.simps)
next
  fix kvs
  assume "entry = JObj kvs \<and> (\<forall>f. 10 \<notin> set (float_repr rt f))
    \<and> 10 \<notin> set (py_str rt (dict_get kvs (ustr ''type'') (JStr (ustr ''UNKNOWN''))))"
  with assms(6) show "newlines line = 1" by (intro log_line_single [of rt kvs]) simp_all
qed

theorem post_accepted_witness:
  "command (example_post ''55'' body_hello) = ''POST''
   \<and> reply_status (fst (handle_one_request example_runtime (example_post ''55'' body_hello)
          example_server)) = Some 200
   \<and> log_text (snd (handle_one_request example_runtime (example_post ''55'' body_hello)
          example_server))
     = ustr ''[2023-11-14 22:13:20.000] [INFO] '' @ json_dumps example_runtime entry_hello @ [10]
   \<and> newlines (ustr ''[2023-11-14 22:13:20.000] [INFO] '' @ json_dumps example_runtime entry_hello
          @ [10]) = 1"
proof -
  have n: "py_int example_runtime ''55'' = Inr (int (length (rfile (example_post ''55'' body_hello))))"
    by (simp add: py_int_55 example_post_fields length_body_hello)
  have l: "json_loads example_runtime (rfile (example_post ''55'' body_hello)) = Inr entry_hello"
    by (simp add: example_post_fields loads_hello)
  note w = post_accepted [OF example_post_fields(1,2) example_header n l line_hello
        surrogate_free_hello example_server_fields(1)]
  have t: "10 \<notin> set (py_str example_runtime
      (dict_get [(ustr ''timestamp'', JInt 1700000000000),
                 (ustr ''type'', JStr (ustr ''INFO'')),
                 (ustr ''msg'', JStr (ustr ''hello''))] (ustr ''type'') (JStr (ustr ''UNKNOWN''))))"
    by (simp only: hello_type) (simp add: ustr_def)
  have f: "\<forall>f. 10 \<notin> set (float_repr example_runtime f)"
    by (simp add: example_runtime_def ustr_def)
  from w have "\<forall>kvs. entry_hello = JObj kvs
                \<and> (\<forall>f. 10 \<notin> set (float_repr example_runtime f))
                \<and> 10 \<notin> set (py_str example_runtime
                           (dict_get kvs (ustr ''type'') (JStr (ustr ''UNKNOWN''))))
              \<longrightarrow> newlines (ustr ''[2023-11-14 22:13:20.000] [INFO] ''
                     @ json_dumps example_runtime entry_hello @ [10]) = 1"
    by (elim conjE)
  then have "newlines (ustr ''[2023-11-14 22:13:20.000] [INFO] ''
                     @ json_dumps example_runtime entry_hello @ [10]) = 1"
    using t f unfolding entry_hello_def by blast
  with w example_post_fields(1) [of "''55''" body_hello] show ?thesis
    by (simp add: reply_status_def log_text_def example_server_fields del: json_dumps.simps)
qed

text \<open>
  C1 as stated fails: the body \<^verbatim>\<open>[1, 2]\<close> is valid JSON, posted with the correct
  \<^verbatim>\<open>Content-Length: 6\<close>, and the response is not 200 (a list has no \<^verbatim>\<open>get\<close>).
\<close>

theorem post_array_counterexample:
  "reply_status (fst (handle_one_request example_runtime (example_post ''6'' ''[1, 2]'')
      example_server)) \<noteq> Some 200"
proof -
  have r: "rfile_read 6 (rfile (example_post ''6'' ''[1, 2]'')) = Inr ''[1, 2]''"
    by (simp add: example_post_fields rfile_read_def)
  have "json_loads example_runtime ''[1, 2]'' = Inr (JArr [JInt 1, JInt 2])
        \<and> log_line example_runtime (JArr [JInt 1, JInt 2]) = Inl AttributeError"
    by (simp add: loads_array log_line_def)
  then have "handle_one_request example_runtime (example_post ''6'' ''[1, 2]'') example_server =
           (Reply \<lparr>status = 500,
                   resp_headers =
                     [(''Server'', version_string example_runtime),
                      (''Date'', date_time_string example_runtime
                         (arrival (example_post ''6'' ''[1, 2]'')))],
                   body = []\<rparr>,
            example_server\<lparr>console := console example_server @ [ErrorProcessing AttributeError]\<rparr>)"
    by (intro handle_POST_reject [OF example_post_fields(1,2) example_header py_int_6 r]) blast
  then show ?thesis by (simp add: reply_status_def)
qed

subsection \<open>One log file\<close>














subsection \<open>Order of the records\<close>

lemma handle_POST_accept_state:
  assumes "command req = ''POST''" "path req = ''/log''"
    and "get_header (headers req) ''Content-Length'' = Some v"
    and "py_int rt v = Inr (int (length (rfile req)))"
    and "json_loads rt (rfile req) = Inr entry" "log_line rt entry = Inr line"
    and "\<not> list_ex is_surrogate line" "\<not> append_fails s"
  shows "reply_status (fst (handle_one_request rt req s)) = Some 200"
    and "snd (handle_one_request rt req s)
         = s\<lparr>files := (files s)(log_file s \<mapsto> log_text s @ line)\<rparr>"
proof -
  note h = handle_POST_accept [OF assms(1-4) rfile_read_all assms(5-8)]
  show "reply_status (fst (handle_one_request rt req s)) = Some 200"
    by (simp add: h reply_status_def)
  show "snd (handle_one_request rt req s)
         = s\<lparr>files := (files s)(log_file s \<mapsto> log_text s @ line)\<rparr>"
    by (simp add: h)
qed

lemma log_text_update: "log_text (s\<lparr>files := (files s)(log_file s \<mapsto> c)\<rparr>) = c"
  by (simp add: log_text_def)

lemma two_posts_state:
  assumes "command req1 = ''POST''" "path req1 = ''/log''"
    and "get_header (headers req1) ''Content-Length'' = Some v1"
    and "py_int rt v1 = Inr (int (length (rfile req1)))"
    and "json_loads rt (rfile req1) = Inr entry1" "log_line rt entry1 = Inr line1"
    and "\<not> list_ex is_surrogate line1"
    and "command req2 = ''POST''" "path req2 = ''/log''"
    and "get_header (headers req2) ''Content-Length'' = Some v2"
    and "py_int rt v2 = Inr (int (length (rfile req2)))"
    and "json_loads rt (rfile req2) = Inr entry2" "log_line rt entry2 = Inr line2"
    and "\<not> list_ex is_surrogate line2"
    and "\<not> append_fails s"
  shows "reply_status (fst (handle_one_request rt req1 s)) = Some 200"
    and "reply_status (fst (handle_one_request rt req2 (snd (handle_one_request rt req1 s))))
         = Some 200"
    and "log_text (serve_forever rt s [req1, req2]) = log_text s @ line1 @ line2"
proof -
  define s1 where "s1 = s\<lparr>files := (files s)(log_file s \<mapsto> log_text s @ line1)\<rparr>"
  have a1: "reply_status (fst (handle_one_request rt req1 s)) = Some 200"
    and b1: "snd (handle_one_request rt req1 s) = s1"
    unfolding s1_def using assms(1-7,15) by (rule handle_POST_accept_state)+
  have s1: "\<not> append_fails s1" "log_text s1 = log_text s @ line1"
    using assms(15) unfolding s1_def by (simp_all only: log_text_update) simp
  have a2: "reply_status (fst (handle_one_request rt req2 s1)) = Some 200"
    and b2: "snd (handle_one_request rt req2 s1)
             = s1\<lparr>files := (files s1)(log_file s1 \<mapsto> log_text s1 @ line2)\<rparr>"
    using assms(8-14) s1(1) by (rule handle_POST_accept_state)+
  show "reply_status (fst (handle_one_request rt req1 s)) = Some 200" by (rule a1)
  show "reply_status (fst (handle_one_request rt req2 (snd (handle_one_request rt req1 s))))
         = Some 200"
    using a2 b1 by simp
  show "log_text (serve_forever rt s [req1, req2]) = log_text s @ line1 @ line2"
    by (simp add: b1 b2 log_text_update s1(2))
qed

text \<open>
  C7, amended. For every pair of sequential accepted POSTs with bodies P1 then P2, both are
  answered 200 and the log file gains the two records in that order, the record of P1
  before the record of P2. The two records are exactly two lines when neither type label
  contains a line break.
\<close>

theorem sequential_posts:
  assumes "command req1 = ''POST''" "path req1 = ''/log''"
    and "get_header (headers req1) ''Content-Length'' = Some v1"
    and "py_int rt v1 = Inr (int (length (rfile req1)))"
    and "json_loads rt (rfile req1) = Inr entry1" "log_line rt entry1 = Inr line1"
    and "\<not> list_ex is_surrogate line1"
    and "command req2 = ''POST''" "path req2 = ''/log''"
    and "get_header (headers req2) ''Content-Length'' = Some v2"
    and "py_int rt v2 = Inr (int (length (rfile req2)))"
    and "json_loads rt (rfile req2) = Inr entry2" "log_line rt entry2 = Inr line2"
    and "\<not> list_ex is_surrogate line2"
    and "\<not> append_fails s"
  shows "reply_status (fst (handle_one_request rt req1 s)) = Some 200
         \<and> reply_status (fst (handle_one_request rt req2 (snd (handle_one_request rt req1 s))))
             = Some 200
         \<and> log_text (serve_forever rt s [req1, req2]) = log_text s @ line1 @ line2
         \<and> (\<forall>kvs1 kvs2. entry1 = JObj kvs1 \<and> entry2 = JObj kvs2
                \<and> (\<forall>f. 10 \<notin> set (float_repr rt f))
                \<and> 10 \<notin> set (py_str rt (dict_get kvs1 (ustr ''type'') (JStr (ustr ''UNKNOWN''))))
                \<and> 10 \<notin> set (py_str rt (dict_get kvs2 (ustr ''type'') (JStr (ustr ''UNKNOWN''))))
              \<longrightarrow> newlines (line1 @ line2) = 2)"
proof -
  note st = two_posts_state [OF assms]
  have n: "newlines (line1 @ line2) = 2"
    if "entry1 = JObj kvs1 \<and> entry2 = JObj kvs2
        \<and> (\<forall>f. 10 \<notin> set (float_repr rt f))
        \<and> 10 \<notin> set (py_str rt (dict_get kvs1 (ustr ''type'') (JStr (ustr ''UNKNOWN''))))
        \<and> 10 \<notin> set (py_str rt (dict_get kvs2 (ustr ''type'') (JStr (ustr ''UNKNOWN''))))"
    for kvs1 kvs2
  proof -
    have "newlines line1 = 1" using assms(6) that by (intro log_line_single [of rt kvs1]) simp_all
    moreover have "newlines line2 = 1"
      using assms(13) that by (intro log_line_single [of rt kvs2]) simp_all
    ultimately show ?thesis by (simp add: newlines_append)
  qed
  have "\<forall>kvs1 kvs2. entry1 = JObj kvs1 \<and> entry2 = JObj kvs2
                \<and> (\<forall>f. 10 \<notin> set (float_repr rt f))
                \<and> 10 \<notin> set (py_str rt (dict_get kvs1 (ustr ''type'') (JStr (ustr ''UNKNOWN''))))
                \<and> 10 \<notin> set (py_str rt (dict_get kvs2 (ustr ''type'') (JStr (ustr ''UNKNOWN''))))
              \<longrightarrow> newlines (line1 @ line2) = 2"
    using n by blast
  with st show ?thesis by (simp only: simp_thms)
qed

lemma epoch_timestamp:
  "format_timestamp example_runtime (JInt 0) = Inr (ustr ''1970-01-01 00:00:00.000'')"
proof -
  have "format_timestamp example_runtime (JInt 0) = Inr (spec_display example_runtime 0)"
    using example_utc by (intro format_timestamp_int_total) simp_all
  then show ?thesis by (simp only: display_epoch)
qed

lemma py_int_15: "py_int example_runtime ''15'' = Inr 15"
  by (simp add: py_int_def example_runtime_def is_space_def is_digit_def digits_value_def)

lemma length_body_two_lines: "length body_two_lines = 15"
  by (simp add: body_two_lines_def dq_def)

lemma loads_two_lines: "json_loads example_runtime body_two_lines = Inr entry_two_lines"
  by (simp add: example_runtime_def example_loads_def body_two_lines_def body_hello_def
      body_true_def body_far_def dq_def)

lemma log_line_two_lines: "log_line example_runtime entry_two_lines = Inr line_two_lines"
proof -
  have t: "dict_get [(ustr ''type'', JStr [97, 10, 98])] (ustr ''timestamp'') (JInt 0) = JInt 0"
    by (simp add: dict_get_def ustr_def)
  have y: "py_str example_runtime
             (dict_get [(ustr ''type'', JStr [97, 10, 98])] (ustr ''type'') (JStr (ustr ''UNKNOWN'')))
           = [97, 10, 98]"
    by (simp add: dict_get_def py_str_def)
  have "log_line example_runtime entry_two_lines =
     Inr (ustr ''['' @ ustr ''1970-01-01 00:00:00.000'' @ ustr ''] ['' @ [97, 10, 98] @ ustr ''] ''
          @ json_dumps example_runtime entry_two_lines @ [10])"
    unfolding entry_two_lines_def
    by (intro log_line_eval) (simp_all only: t y epoch_timestamp)
  then show ?thesis by (simp add: line_two_lines_def ustr_def del: json_dumps.simps)
qed

lemma dumps_two_lines:
  "json_dumps example_runtime entry_two_lines
   = [123, 34] @ ustr ''type'' @ [34] @ ustr '': '' @ [34, 97, 92, 110, 98, 34, 125]"
  by (simp add: entry_two_lines_def encode_str_def escape_char_def ustr_def)

lemma newlines_two_lines: "newlines line_two_lines = 2"
  by (simp add: line_two_lines_def dumps_two_lines newlines_def ustr_def)

lemma surrogate_free_two_lines: "\<not> list_ex is_surrogate line_two_lines"
  by (simp add: line_two_lines_def dumps_two_lines is_surrogate_def ustr_def)

lemma example_post_hello_ok:
  "py_int example_runtime ''55'' = Inr (int (length (rfile (example_post ''55'' body_hello))))"
  "json_loads example_runtime (rfile (example_post ''55'' body_hello)) = Inr entry_hello"
  by (simp_all add: py_int_55 example_post_fields length_body_hello loads_hello)

lemma example_post_two_lines_ok:
  "py_int example_runtime ''15'' = Inr (int (length (rfile (example_post ''15'' body_two_lines))))"
  "json_loads example_runtime (rfile (example_post ''15'' body_two_lines)) = Inr entry_two_lines"
  by (simp_all add: py_int_15 example_post_fields length_body_two_lines loads_two_lines)

lemma example_log_empty: "log_text example_server = []"
  by (simp add: log_text_def example_server_fields)

lemma example_float_repr: "\<forall>f. 10 \<notin> set (float_repr example_runtime f)"
  by (simp add: example_runtime_def ustr_def)

theorem sequential_posts_witness:
  "command (example_post ''55'' body_hello) = ''POST''
   \<and> log_text (serve_forever example_runtime example_server
         [example_post ''55'' body_hello, example_post ''55'' body_hello])
     = (ustr ''[2023-11-14 22:13:20.000] [INFO] '' @ json_dumps example_runtime entry_hello @ [10])
       @ (ustr ''[2023-11-14 22:13:20.000] [INFO] '' @ json_dumps example_runtime entry_hello
          @ [10])
   \<and> newlines
        ((ustr ''[2023-11-14 22:13:20.000] [INFO] '' @ json_dumps example_runtime entry_hello @ [10])
         @ (ustr ''[2023-11-14 22:13:20.000] [INFO] '' @ json_dumps example_runtime entry_hello
            @ [10])) = 2"
proof -
  note w = sequential_posts [OF example_post_fields(1,2) example_header example_post_hello_ok
      line_hello surrogate_free_hello
      example_post_fields(1,2) example_header example_post_hello_ok
      line_hello surrogate_free_hello example_server_fields(1)]
  have t: "10 \<notin> set (py_str example_runtime
      (dict_get [(ustr ''timestamp'', JInt 1700000000000),
                 (ustr ''type'', JStr (ustr ''INFO'')),
                 (ustr ''msg'', JStr (ustr ''hello''))] (ustr ''type'') (JStr (ustr ''UNKNOWN''))))"
    by (simp only: hello_type) (simp add: ustr_def)
  from w have "\<forall>kvs1 kvs2. entry_hello = JObj kvs1 \<and> entry_hello = JObj kvs2
                \<and> (\<forall>f. 10 \<notin> set (float_repr example_runtime f))
                \<and> 10 \<notin> set (py_str example_runtime
                           (dict_get kvs1 (ustr ''type'') (JStr (ustr ''UNKNOWN''))))
                \<and> 10 \<notin> set (py_str example_runtime
                           (dict_get kvs2 (ustr ''type'') (JStr (ustr ''UNKNOWN''))))
              \<longrightarrow> newlines
        ((ustr ''[2023-11-14 22:13:20.000] [INFO] '' @ json_dumps example_runtime entry_hello @ [10])
         @ (ustr ''[2023-11-14 22:13:20.000] [INFO] '' @ json_dumps example_runtime entry_hello
            @ [10])) = 2"
    by (elim conjE)
  then have "newlines
        ((ustr ''[2023-11-14 22:13:20.000] [INFO] '' @ json_dumps example_runtime entry_hello @ [10])
         @ (ustr ''[2023-11-14 22:13:20.000] [INFO] '' @ json_dumps example_runtime entry_hello
            @ [10])) = 2"
    using t example_float_repr unfolding entry_hello_def by blast
  with w example_post_fields(1) [of "''55''" body_hello] show ?thesis
    by (simp add: example_log_empty del: json_dumps.simps)
qed

text \<open>
  C7 as stated fails on the number of lines: two accepted POSTs of
  \<^verbatim>\<open>{"type":"a\nb"}\<close> leave four lines in the file, not two.
\<close>

theorem sequential_posts_counterexample:
  "reply_status (fst (handle_one_request example_runtime (example_post ''15'' body_two_lines)
      example_server)) = Some 200
   \<and> reply_status (fst (handle_one_request example_runtime (example_post ''15'' body_two_lines)
        (snd (handle_one_request example_runtime (example_post ''15'' body_two_lines)
           example_server)))) = Some 200
   \<and> newlines (log_text (serve_forever example_runtime example_server
         [example_post ''15'' body_two_lines, example_post ''15'' body_two_lines])) = 4"
  using two_posts_state [OF example_post_fields(1,2) example_header example_post_two_lines_ok
      log_line_two_lines surrogate_free_two_lines
      example_post_fields(1,2) example_header example_post_two_lines_ok
      log_line_two_lines surrogate_free_two_lines example_server_fields(1)]
  by (simp add: example_log_empty newlines_append newlines_two_lines)

lemma spec_display_epoch: "spec_display rt 0 = wall_clock rt 0 @ ustr ''.000''"
  by (simp add: spec_display_def zpad_def dec_nat.simps ustr_def replicate_2)

subsection \<open>Defaults and the type label\<close>

text \<open>
  C5. For every accepted event whose object lacks the \<^verbatim>\<open>type\<close> key, the line carries
  \<^verbatim>\<open>UNKNOWN\<close> as its type label; for every accepted event whose object lacks the
  \<^verbatim>\<open>timestamp\<close> key, the timestamp is that of 0, the epoch instant in local time with
  fractional part \<^verbatim>\<open>.000\<close>.
\<close>

theorem missing_keys_default:
  assumes "log_line rt (JObj kvs) = Inr line"
  shows "(map_of kvs (ustr ''type'') = None \<longrightarrow>
            (\<exists>ts. format_timestamp rt (dict_get kvs (ustr ''timestamp'') (JInt 0)) = Inr ts
                  \<and> line = ustr ''['' @ ts @ ustr ''] ['' @ ustr ''UNKNOWN'' @ ustr ''] ''
                           @ json_dumps rt (JObj kvs) @ [10]))
         \<and> (map_of kvs (ustr ''timestamp'') = None \<longrightarrow>
            (\<exists>ts. format_timestamp rt (JInt 0) = Inr ts
                  \<and> line = ustr ''['' @ ts @ ustr ''] [''
                           @ py_str rt (dict_get kvs (ustr ''type'') (JStr (ustr ''UNKNOWN'')))
                           @ ustr ''] '' @ json_dumps rt (JObj kvs) @ [10]))
         \<and> (map_of kvs (ustr ''timestamp'') = None \<and> (\<forall>x. \<bar>utcoffset rt x\<bar> \<le> 86400) \<longrightarrow>
            line = ustr ''['' @ wall_clock rt 0 @ ustr ''.000'' @ ustr ''] [''
                   @ py_str rt (dict_get kvs (ustr ''type'') (JStr (ustr ''UNKNOWN'')))
                   @ ustr ''] '' @ json_dumps rt (JObj kvs) @ [10])"
proof -
  from assms obtain ts where
    ts: "format_timestamp rt (dict_get kvs (ustr ''timestamp'') (JInt 0)) = Inr ts"
    and line: "line = ustr ''['' @ ts @ ustr ''] [''
                @ py_str rt (dict_get kvs (ustr ''type'') (JStr (ustr ''UNKNOWN'')))
                @ ustr ''] '' @ json_dumps rt (JObj kvs) @ [10]"
    by (auto elim: log_line_Inr)
  have a: "\<exists>ts. format_timestamp rt (dict_get kvs (ustr ''timestamp'') (JInt 0)) = Inr ts
             \<and> line = ustr ''['' @ ts @ ustr ''] ['' @ ustr ''UNKNOWN'' @ ustr ''] ''
                      @ json_dumps rt (JObj kvs) @ [10]"
    if "map_of kvs (ustr ''type'') = None"
  proof -
    from that have "py_str rt (dict_get kvs (ustr ''type'') (JStr (ustr ''UNKNOWN'')))
                    = ustr ''UNKNOWN''"
      by (simp add: dict_get_def py_str_def)
    with ts line show ?thesis by simp
  qed
  have t0: "format_timestamp rt (JInt 0) = Inr ts" if "map_of kvs (ustr ''timestamp'') = None"
  proof -
    from that have "dict_get kvs (ustr ''timestamp'') (JInt 0) = JInt 0"
      by (simp add: dict_get_def)
    with ts show ?thesis by simp
  qed
  have b: "\<exists>ts. format_timestamp rt (JInt 0) = Inr ts
             \<and> line = ustr ''['' @ ts @ ustr ''] [''
                      @ py_str rt (dict_get kvs (ustr ''type'') (JStr (ustr ''UNKNOWN'')))
                      @ ustr ''] '' @ json_dumps rt (JObj kvs) @ [10]"
    if "map_of kvs (ustr ''timestamp'') = None"
    using t0 [OF that] line by blast
  have c: "line = ustr ''['' @ wall_clock rt 0 @ ustr ''.000'' @ ustr ''] [''
                  @ py_str rt (dict_get kvs (ustr ''type'') (JStr (ustr ''UNKNOWN'')))
                  @ ustr ''] '' @ json_dumps rt (JObj kvs) @ [10]"
    if "map_of kvs (ustr ''timestamp'') = None \<and> (\<forall>x. \<bar>utcoffset rt x\<bar> \<le> 86400)"
  proof -
    have "\<bar>0 :: int\<bar> < 8589934592000" by simp
    then have "format_timestamp rt (JInt 0) = Inr (spec_display rt 0)"
      using that by (intro format_timestamp_int_total) simp_all
    with t0 that have "ts = spec_display rt 0" by simp
    then have "ts = wall_clock rt 0 @ ustr ''.000''" by (simp only: spec_display_epoch)
    with line show ?thesis by simp
  qed
  from a b c show ?thesis by blast
qed

lemma log_line_empty: "log_line example_runtime (JObj []) = Inr line_empty"
proof -
  have "log_line example_runtime (JObj []) =
     Inr (ustr ''['' @ ustr ''1970-01-01 00:00:00.000'' @ ustr ''] ['' @ ustr ''UNKNOWN'' @ ustr ''] ''
          @ json_dumps example_runtime (JObj []) @ [10])"
    by (intro log_line_eval) (simp_all add: dict_get_def epoch_timestamp py_str_def)
  then show ?thesis by (simp add: line_empty_def ustr_def)
qed

theorem missing_keys_default_witness:
  "log_line example_runtime (JObj []) = Inr line_empty
   \<and> map_of ([] :: (pystr \<times> json) list) (ustr ''type'') = None
   \<and> map_of ([] :: (pystr \<times> json) list) (ustr ''timestamp'') = None
   \<and> (\<forall>x. \<bar>utcoffset example_runtime x\<bar> \<le> 86400)
   \<and> line_empty = ustr ''['' @ wall_clock example_runtime 0 @ ustr ''.000'' @ ustr ''] [''
         @ ustr ''UNKNOWN'' @ ustr ''] '' @ json_dumps example_runtime (JObj []) @ [10]"
  using log_line_empty example_utc missing_keys_default [OF log_line_empty]
  by (simp add: dict_get_def py_str_def del: json_dumps.simps)





subsection \<open>Rejected requests\<close>


















lemma no_header: "get_header (headers (example_request ''POST'' ''/log'')) ''Content-Length'' = None"
  by (simp add: get_header_def example_request_def)

text \<open>
  Inside the \<^verbatim>\<open>try\<close> block the error path is as specified: the body \<^verbatim>\<open>not json\<close> is
  answered 500 with an empty body, the error is printed and no file is touched.
\<close>

lemma py_int_8: "py_int example_runtime ''8'' = Inr 8"
  by (simp add: py_int_def example_runtime_def is_space_def is_digit_def digits_value_def)

lemma read_not_json: "rfile_read 8 (rfile (example_post ''8'' ''not json'')) = Inr ''not json''"
  by (simp add: example_post_fields rfile_read_def)

lemma loads_not_json: "json_loads example_runtime ''not json'' = Inl JSONDecodeError"
  by (simp add: example_runtime_def example_loads_def
      body_text_timestamp_def body_two_lines_def body_hello_def body_true_def body_far_def dq_def)

lemma post_not_json:
  "handle_one_request example_runtime (example_post ''8'' ''not json'') example_server =
     (Reply \<lparr>status = 500,
             resp_headers =
               [(''Server'', version_string example_runtime),
                (''Date'', date_time_string example_runtime
                   (arrival (example_post ''8'' ''not json'')))],
             body = []\<rparr>,
      example_server\<lparr>console := console example_server @ [ErrorProcessing JSONDecodeError]\<rparr>)"
  using loads_not_json
  by (intro handle_POST_reject [OF example_post_fields(1,2) example_header py_int_8
        read_not_json]) simp

text \<open>
  C2 at a POST to \<^verbatim>\<open>/log\<close> without a \<^verbatim>\<open>Content-Length\<close> header: line 22 raises
  \<^verbatim>\<open>TypeError\<close> outside the \<^verbatim>\<open>try\<close> block, so the handler sends no response at all
  (not the 500 of the claim); the server prints a traceback and closes the connection.
  Nothing is written to the log file.
\<close>

theorem post_without_content_length:
  "handle_one_request example_runtime (example_request ''POST'' ''/log'') example_server
     = (Raised TypeError, example_server\<lparr>console := [Traceback TypeError]\<rparr>)
   \<and> reply_status (fst (handle_one_request example_runtime (example_request ''POST'' ''/log'')
          example_server)) = None"
proof -
  have "do_POST example_runtime (example_request ''POST'' ''/log'') example_server
        = (Raised TypeError, example_server)"
    by (simp add: do_POST_def no_header) (simp add: example_request_def)
  then have "handle_one_request example_runtime (example_request ''POST'' ''/log'') example_server
     = (Raised TypeError, example_server\<lparr>console := [Traceback TypeError]\<rparr>)"
    by (simp add: handle_one_request_def example_server_fields) (simp add: example_request_def)
  then show ?thesis by (simp add: reply_status_def)
qed

end
